theory Spec2Isabelle
  imports Main "HOL-Library.Word"
begin

unbundle bit_operations_syntax

section \<open>JavaScript values\<close>

text \<open>
  The handler of \<^verbatim>\<open>src/dek-creator/app.mjs\<close> receives its event as a JavaScript value,
  reads properties from it and from the parsed secret, throws and catches JavaScript values
  and serialises them with \<^verbatim>\<open>JSON.stringify\<close>. The values of the model: what JSON data
  can hold, \<^verbatim>\<open>undefined\<close>, Error objects, BigInt values, and \<open>JCyclic\<close>, an object that
  reaches itself through its enumerable properties (what else such an object holds is not
  modelled: the program reads no property of one). An Error object carries its name and
  message (both are not enumerable: the name lives on the prototype, the message is a
  non-enumerable own property, as the stack is) and the list of its enumerable own
  properties. Outside the model: functions, symbols and \<^verbatim>\<open>toJSON\<close> hooks; numbers are the
  integers whose JavaScript rendering is the plain decimal one; a string is a list of
  8-bit characters; an object is the list of its properties in insertion order, and a
  property read takes the first binding of a name.
\<close>

datatype jsval =
    JUndefined
  | JNull
  | JBool bool
  | JNum int
  | JStr string
  | JArr "jsval list"
  | JObj "(string \<times> jsval) list"
  | JError string string "(string \<times> jsval) list"
  | JBigInt int
  | JCyclic

text \<open>\<^verbatim>\<open>!v\<close>: the values that convert to \<^verbatim>\<open>false\<close>.\<close>

fun falsy :: "jsval \<Rightarrow> bool" where
  "falsy JUndefined = True"
| "falsy JNull = True"
| "falsy (JBool b) = (b = False)"
| "falsy (JNum n) = (n = 0)"
| "falsy (JStr s) = (s = [])"
| "falsy (JArr xs) = False"
| "falsy (JObj ps) = False"
| "falsy (JError n m ps) = False"
| "falsy (JBigInt n) = (n = 0)"
| "falsy JCyclic = False"

subsection \<open>Rendering numbers and joining strings\<close>

definition digit_char :: "nat \<Rightarrow> char" where
  "digit_char d = char_of (48 + d)"

function nat_digits :: "nat \<Rightarrow> string" where
  "nat_digits n = (if n < 10 then [digit_char n] else nat_digits (n div 10) @ [digit_char (n mod 10)])"
  by pat_completeness auto
termination
  by (relation "measure id") auto

definition int_text :: "int \<Rightarrow> string" where
  "int_text i = (if i < 0 then CHR ''-'' # nat_digits (nat (- i)) else nat_digits (nat i))"

fun join :: "string \<Rightarrow> string list \<Rightarrow> string" where
  "join sep [] = []"
| "join sep [x] = x"
| "join sep (x # y # ys) = x @ sep @ join sep (y # ys)"

subsection \<open>ToString, as a template literal applies it\<close>

text \<open>
  \<^verbatim>\<open>`${v}`\<close>: a string is itself, an array is its elements joined by commas with
  \<^verbatim>\<open>null\<close> and \<^verbatim>\<open>undefined\<close> rendered empty, a plain object is \<^verbatim>\<open>[object Object]\<close>,
  an Error is \<^verbatim>\<open>name: message\<close>.
\<close>

fun to_string :: "jsval \<Rightarrow> string"
  and elems_to_string :: "jsval list \<Rightarrow> string list" where
  "to_string JUndefined = ''undefined''"
| "to_string JNull = ''null''"
| "to_string (JBool b) = (if b then ''true'' else ''false'')"
| "to_string (JNum n) = int_text n"
| "to_string (JStr s) = s"
| "to_string (JArr xs) = join '','' (elems_to_string xs)"
| "to_string (JObj ps) = ''[object Object]''"
| "to_string (JError n m ps) = (if m = [] then n else if n = [] then m else n @ '': '' @ m)"
| "to_string (JBigInt n) = int_text n"
| "to_string JCyclic = ''[object Object]''"
| "elems_to_string [] = []"
| "elems_to_string (x # xs) =
     (if x = JUndefined \<or> x = JNull then [] else to_string x) # elems_to_string xs"

subsection \<open>\<^verbatim>\<open>JSON.stringify\<close>\<close>

definition hex_digit :: "nat \<Rightarrow> char" where
  "hex_digit d = (if d < 10 then char_of (48 + d) else char_of (87 + d))"

text \<open>
  The quoting of a string: the quote and the backslash are escaped, the control characters
  below 0x20 are written by their short escape or as \<^verbatim>\<open>\u00XX\<close>.
\<close>

definition json_escape_char :: "char \<Rightarrow> string" where
  "json_escape_char c =
     (if c = CHR 0x22 then [CHR 0x5C, CHR 0x22]
      else if c = CHR 0x5C then [CHR 0x5C, CHR 0x5C]
      else if c = CHR 0x08 then [CHR 0x5C, CHR ''b'']
      else if c = CHR 0x0C then [CHR 0x5C, CHR ''f'']
      else if c = CHR 0x0A then [CHR 0x5C, CHR ''n'']
      else if c = CHR 0x0D then [CHR 0x5C, CHR ''r'']
      else if c = CHR 0x09 then [CHR 0x5C, CHR ''t'']
      else if (of_char c :: nat) < 32
        then [CHR 0x5C, CHR ''u'', CHR ''0'', CHR ''0'',
              hex_digit ((of_char c :: nat) div 16), hex_digit ((of_char c :: nat) mod 16)]
      else [c])"

definition json_quote :: "string \<Rightarrow> string" where
  "json_quote s = [CHR 0x22] @ concat (map json_escape_char s) @ [CHR 0x22]"

text \<open>
  \<^verbatim>\<open>JSON.stringify\<close> throws a TypeError on a BigInt and on an object that reaches itself
  (the messages are V8's, the second without the path it appends).
\<close>

definition bigint_TypeError :: jsval where
  "bigint_TypeError = JError ''TypeError'' ''Do not know how to serialize a BigInt'' []"

definition circular_TypeError :: jsval where
  "circular_TypeError = JError ''TypeError'' ''Converting circular structure to JSON'' []"

text \<open>
  \<^verbatim>\<open>json_text v\<close> is what \<^verbatim>\<open>JSON.stringify(v)\<close> does: \<open>Inl\<close> the TypeError it throws,
  \<open>Inr\<close> the text it returns, \<open>None\<close> where it returns \<^verbatim>\<open>undefined\<close>. The value is walked
  in order, so the first BigInt or cyclic object met decides the error. A property whose
  value is \<^verbatim>\<open>undefined\<close> is left out of an object; an \<^verbatim>\<open>undefined\<close> element of an array is
  written \<^verbatim>\<open>null\<close>. Of an Error object, only the enumerable own properties are written.
\<close>

fun json_text :: "jsval \<Rightarrow> jsval + string option"
  and json_elems :: "jsval list \<Rightarrow> jsval + string list"
  and json_members :: "(string \<times> jsval) list \<Rightarrow> jsval + string list" where
  "json_text JUndefined = Inr None"
| "json_text JNull = Inr (Some ''null'')"
| "json_text (JBool b) = Inr (Some (if b then ''true'' else ''false''))"
| "json_text (JNum n) = Inr (Some (int_text n))"
| "json_text (JStr s) = Inr (Some (json_quote s))"
| "json_text (JArr xs) =
     (case json_elems xs of Inl e \<Rightarrow> Inl e
      | Inr ts \<Rightarrow> Inr (Some (''['' @ join '','' ts @ '']'')))"
| "json_text (JObj ps) =
     (case json_members ps of Inl e \<Rightarrow> Inl e
      | Inr ts \<Rightarrow> Inr (Some (''{'' @ join '','' ts @ ''}'')))"
| "json_text (JError n m ps) =
     (case json_members ps of Inl e \<Rightarrow> Inl e
      | Inr ts \<Rightarrow> Inr (Some (''{'' @ join '','' ts @ ''}'')))"
| "json_text (JBigInt n) = Inl bigint_TypeError"
| "json_text JCyclic = Inl circular_TypeError"
| "json_elems [] = Inr []"
| "json_elems (x # xs) =
     (case json_text x of Inl e \<Rightarrow> Inl e
      | Inr t \<Rightarrow>
          (case json_elems xs of Inl e \<Rightarrow> Inl e
           | Inr ts \<Rightarrow> Inr ((case t of None \<Rightarrow> ''null'' | Some txt \<Rightarrow> txt) # ts)))"
| "json_members [] = Inr []"
| "json_members ((k, v) # ps) =
     (case json_text v of Inl e \<Rightarrow> Inl e
      | Inr t \<Rightarrow>
          (case json_members ps of Inl e \<Rightarrow> Inl e
           | Inr ts \<Rightarrow>
               Inr (case t of None \<Rightarrow> ts | Some txt \<Rightarrow> (json_quote k @ '':'' @ txt) # ts)))"

definition JSON_stringify :: "jsval \<Rightarrow> jsval + jsval" where
  "JSON_stringify v =
     (case json_text v of Inl e \<Rightarrow> Inl e
      | Inr None \<Rightarrow> Inr JUndefined
      | Inr (Some t) \<Rightarrow> Inr (JStr t))"

subsection \<open>Property reads\<close>

text \<open>
  \<^verbatim>\<open>v.k\<close>, and one name of a destructuring pattern: reading from \<^verbatim>\<open>undefined\<close> or
  \<^verbatim>\<open>null\<close> throws a TypeError (the message is V8's); an object gives the value bound to
  the name or \<^verbatim>\<open>undefined\<close>; the other values have none of the properties this program
  reads.
\<close>

definition lookup :: "(string \<times> jsval) list \<Rightarrow> string \<Rightarrow> jsval" where
  "lookup ps k = (case map_of ps k of None \<Rightarrow> JUndefined | Some v \<Rightarrow> v)"

definition read_TypeError :: "jsval \<Rightarrow> string \<Rightarrow> jsval" where
  "read_TypeError v k =
     JError ''TypeError''
       (''Cannot read properties of '' @ to_string v @ '' (reading '' @ [CHR 0x27] @ k @ [CHR 0x27] @ '')'') []"

fun property :: "jsval \<Rightarrow> string \<Rightarrow> jsval" where
  "property (JObj ps) k = lookup ps k"
| "property (JError n m ps) k =
     (case map_of ps k of Some v \<Rightarrow> v
      | None \<Rightarrow> if k = ''message'' then JStr m else if k = ''name'' then JStr n else JUndefined)"
| "property v k = JUndefined"

definition get_prop :: "jsval \<Rightarrow> string \<Rightarrow> jsval + jsval" where
  "get_prop v k =
     (if v = JUndefined \<or> v = JNull then Inl (read_TypeError v k) else Inr (property v k))"

section \<open>The uuid package\<close>

text \<open>
  The source imports \<^verbatim>\<open>v4\<close> from the uuid package under the local name \<^verbatim>\<open>stringify\<close>
  (line 5). The package is a dependency, not part of the repository; the two functions
  below follow its published behaviour. \<^verbatim>\<open>v4(options)\<close> takes its 16 bytes from
  \<^verbatim>\<open>options.random\<close>, else from \<^verbatim>\<open>options.rng()\<close>, else from the package's random
  number generator, sets the version and variant bits and renders the bytes; the value
  the handler passes as \<^verbatim>\<open>options\<close> is a byte buffer, which has neither property, so the
  bytes are the generator's. The generator's output is a parameter; it holds 16 bytes,
  which \<open>unsafeStringify\<close> renders as groups of 4, 2, 2, 2 and 6 bytes in lower-case
  hexadecimal digits.
\<close>

type_synonym byte = "8 word"

definition byteToHex :: "byte \<Rightarrow> string" where
  "byteToHex b = [hex_digit (unat b div 16), hex_digit (unat b mod 16)]"

definition unsafeStringify :: "byte list \<Rightarrow> string" where
  "unsafeStringify arr =
     concat (map byteToHex (take 4 arr)) @ ''-'' @
     concat (map byteToHex (take 2 (drop 4 arr))) @ ''-'' @
     concat (map byteToHex (take 2 (drop 6 arr))) @ ''-'' @
     concat (map byteToHex (take 2 (drop 8 arr))) @ ''-'' @
     concat (map byteToHex (take 6 (drop 10 arr)))"

definition v4 :: "byte list \<Rightarrow> byte list \<Rightarrow> string" where
  "v4 rnds options =
     unsafeStringify
       ((rnds[6 := (rnds ! 6 AND 0x0f) OR 0x40])[8 := (rnds ! 8 AND 0x3f) OR 0x80])"

text \<open>
  Decoding the textual form back to the 16 bytes (the package's \<^verbatim>\<open>parse\<close>): 36 characters,
  dashes at positions 8, 13, 18 and 23, hexadecimal digits elsewhere.
\<close>

definition hex_val :: "char \<Rightarrow> nat option" where
  "hex_val c =
     (let n = (of_char c :: nat) in
      if 48 \<le> n \<and> n \<le> 57 then Some (n - 48)
      else if 97 \<le> n \<and> n \<le> 102 then Some (n - 87)
      else if 65 \<le> n \<and> n \<le> 70 then Some (n - 55)
      else None)"

fun hex_bytes :: "string \<Rightarrow> byte list option" where
  "hex_bytes [] = Some []"
| "hex_bytes [c] = None"
| "hex_bytes (c # d # cs) =
     (case (hex_val c, hex_val d, hex_bytes cs) of
        (Some h, Some l, Some bs) \<Rightarrow> Some (of_nat (16 * h + l) # bs)
      | _ \<Rightarrow> None)"

definition uuid_parse :: "string \<Rightarrow> byte list option" where
  "uuid_parse s =
     (if length s = 36 \<and> s ! 8 = CHR ''-'' \<and> s ! 13 = CHR ''-'' \<and> s ! 18 = CHR ''-'' \<and> s ! 23 = CHR ''-''
      then hex_bytes (take 8 s @ take 4 (drop 9 s) @ take 4 (drop 14 s) @ take 4 (drop 19 s) @ drop 24 s)
      else None)"

section \<open>The external collaborators\<close>

text \<open>
  The arguments the handler passes to the libraries, as the records the source builds.
\<close>

record mongo_client =
  uri :: jsval
  useNewUrlParser :: bool
  useUnifiedTopology :: bool

record aws_identity =
  accessKeyId :: jsval
  secretAccessKey :: jsval
  sessionToken :: jsval

record encryption_options =
  keyVaultNamespace :: string
  kmsProviders_aws :: aws_identity

record client_encryption =
  ce_client :: "mongo_client option"
  ce_options :: encryption_options

record master_key =
  key :: jsval
  region :: jsval

record data_key_options =
  masterKey :: master_key
  keyAltNames :: "jsval list"

record binary =
  buffer :: "byte list"

record envelope =
  statusCode :: int
  body :: jsval

text \<open>
  What one invocation does to the outside, in order: the calls to the secret store, the
  database driver, the credential chain and the encryption library with their arguments,
  and the lines written to the console.
\<close>

datatype call =
    SecretsSend string string
  | MongoConnect mongo_client
  | ProviderChain
  | NewClientEncryption "mongo_client option" encryption_options
  | CreateDataKey client_encryption string data_key_options
  | ConsoleLog jsval

text \<open>
  How the collaborators answer during one invocation. \<open>Inl\<close> and \<open>Some\<close> carry the value
  a call throws (or rejects with). \<open>sm_send region secretId\<close> is the \<^verbatim>\<open>SecretString\<close> of
  the response; \<open>mongo_connect\<close> stands for constructing the driver's client and
  connecting it; \<open>rng\<close> is the output of the uuid package's random number generator;
  \<open>process_env_MONGODB_URI\<close> is the environment variable the second variant reads.
\<close>

record env =
  sm_send :: "string \<Rightarrow> string \<Rightarrow> jsval + jsval"
  JSON_parse :: "jsval \<Rightarrow> jsval + jsval"
  mongo_connect :: "mongo_client \<Rightarrow> jsval option"
  provider :: "jsval + aws_identity"
  new_ClientEncryption :: "mongo_client option \<Rightarrow> encryption_options \<Rightarrow> jsval option"
  createDataKey :: "client_encryption \<Rightarrow> string \<Rightarrow> data_key_options \<Rightarrow> jsval + binary"
  rng :: "byte list"
  process_env_MONGODB_URI :: jsval

section \<open>Sequencing, exceptions and the trace\<close>

text \<open>
  A computation takes the module-level state and gives the value it returns or the value
  it throws, the state it leaves and the calls it made.
\<close>

type_synonym ('s, 'a) comp = "'s \<Rightarrow> (jsval + 'a) \<times> 's \<times> call list"

definition ret :: "'a \<Rightarrow> ('s, 'a) comp" where
  "ret a s = (Inr a, s, [])"

definition raise :: "jsval \<Rightarrow> ('s, 'a) comp" where
  "raise e s = (Inl e, s, [])"

definition lift :: "jsval + 'a \<Rightarrow> ('s, 'a) comp" where
  "lift r s = (r, s, [])"

definition external :: "call \<Rightarrow> jsval + 'a \<Rightarrow> ('s, 'a) comp" where
  "external c r s = (r, s, [c])"

definition then_do :: "('s, 'a) comp \<Rightarrow> ('a \<Rightarrow> ('s, 'b) comp) \<Rightarrow> ('s, 'b) comp" where
  "then_do m f s =
     (case m s of
        (Inl e, s1, t1) \<Rightarrow> (Inl e, s1, t1)
      | (Inr a, s1, t1) \<Rightarrow> (case f a s1 of (r, s2, t2) \<Rightarrow> (r, s2, t1 @ t2)))"

definition try_catch :: "('s, 'a) comp \<Rightarrow> (jsval \<Rightarrow> ('s, 'a) comp) \<Rightarrow> ('s, 'a) comp" where
  "try_catch m h s =
     (case m s of
        (Inl e, s1, t1) \<Rightarrow> (case h e s1 of (r, s2, t2) \<Rightarrow> (r, s2, t1 @ t2))
      | (Inr a, s1, t1) \<Rightarrow> (Inr a, s1, t1))"

definition failed :: "jsval option \<Rightarrow> jsval + unit" where
  "failed r = (case r of Some e \<Rightarrow> Inl e | None \<Rightarrow> Inr ())"

definition console_log :: "jsval \<Rightarrow> ('s, unit) comp" where
  "console_log v = external (ConsoleLog v) (Inr ())"

section \<open>The secret-store variant (lines 1 to 122)\<close>

definition KEY_NAMESPACE :: string where
  "KEY_NAMESPACE = ''encryption.__keyVault''"

definition getSecretManagerData :: "env \<Rightarrow> ('s, jsval) comp" where
  "getSecretManagerData E =
     then_do (external (SecretsSend ''ap-south-1'' ''staging-platform-pii-lambda'')
                (sm_send E ''ap-south-1'' ''staging-platform-pii-lambda''))
       (\<lambda>secretString. lift (JSON_parse E secretString))"

definition initializeMongodb :: "env \<Rightarrow> jsval \<Rightarrow> ('s, mongo_client) comp" where
  "initializeMongodb E u =
     try_catch
       (let client = \<lparr>uri = u, useNewUrlParser = True, useUnifiedTopology = True\<rparr> in
        then_do (external (MongoConnect client) (failed (mongo_connect E client)))
          (\<lambda>_. ret client))
       (\<lambda>err. raise err)"

definition initialize :: "env \<Rightarrow> mongo_client \<Rightarrow> ('s, client_encryption) comp" where
  "initialize E dbClient =
     then_do (external ProviderChain (provider E)) (\<lambda>aws.
       let opts = \<lparr>keyVaultNamespace = KEY_NAMESPACE,
                   kmsProviders_aws = \<lparr>accessKeyId = accessKeyId aws,
                                       secretAccessKey = secretAccessKey aws,
                                       sessionToken = sessionToken aws\<rparr>\<rparr> in
       then_do (external (NewClientEncryption (Some dbClient) opts)
                  (failed (new_ClientEncryption E (Some dbClient) opts)))
         (\<lambda>_. ret \<lparr>ce_client = Some dbClient, ce_options = opts\<rparr>))"

text \<open>
  \<^verbatim>\<open>const { kmsKeyArn, kmsKeyRegion, dekAltName } = event\<close>: a TypeError when the event
  is \<^verbatim>\<open>undefined\<close> or \<^verbatim>\<open>null\<close> (the message is V8's), the three properties otherwise.
\<close>

definition destructure_TypeError :: "jsval \<Rightarrow> jsval" where
  "destructure_TypeError event =
     JError ''TypeError''
       (''Cannot destructure property '' @ [CHR 0x27] @ ''kmsKeyArn'' @ [CHR 0x27] @ '' of '' @
        [CHR 0x27] @ ''event'' @ [CHR 0x27] @ '' as it is '' @ to_string event @ ''.'') []"

definition destructure :: "jsval \<Rightarrow> ('s, jsval \<times> jsval \<times> jsval) comp" where
  "destructure event =
     (if event = JUndefined \<or> event = JNull then raise (destructure_TypeError event)
      else ret (property event ''kmsKeyArn'', property event ''kmsKeyRegion'',
                property event ''dekAltName''))"

definition parameter_message :: "jsval \<Rightarrow> jsval \<Rightarrow> jsval \<Rightarrow> string" where
  "parameter_message kmsKeyArn kmsKeyRegion dekAltName =
     ''One of the parameter is not provided kmsKeyArn: '' @ to_string kmsKeyArn @
     '', kmsKeyRegion: '' @ to_string kmsKeyRegion @
     '', dekAltName: '' @ to_string dekAltName"

definition parameter_error :: "jsval \<Rightarrow> jsval \<Rightarrow> jsval \<Rightarrow> jsval" where
  "parameter_error kmsKeyArn kmsKeyRegion dekAltName =
     JError ''Error'' (parameter_message kmsKeyArn kmsKeyRegion dekAltName) []"

definition check_parameters :: "jsval \<Rightarrow> jsval \<Rightarrow> jsval \<Rightarrow> ('s, unit) comp" where
  "check_parameters kmsKeyArn kmsKeyRegion dekAltName =
     (if falsy kmsKeyArn \<or> falsy kmsKeyRegion \<or> falsy dekAltName
      then raise (parameter_error kmsKeyArn kmsKeyRegion dekAltName)
      else ret ())"

text \<open>
  The \<^verbatim>\<open>try\<close> block of the handler, with \<^verbatim>\<open>stringify\<close> bound to the package's \<^verbatim>\<open>v4\<close>.
  The returned object is built last: its body is the result of \<^verbatim>\<open>JSON.stringify\<close>, which
  may throw.
\<close>

definition lambdaHandler_try :: "env \<Rightarrow> jsval \<Rightarrow> ('s, envelope) comp" where
  "lambdaHandler_try E event =
     then_do (destructure event) (\<lambda>(kmsKeyArn, kmsKeyRegion, dekAltName).
     then_do (getSecretManagerData E) (\<lambda>secrets.
     then_do (check_parameters kmsKeyArn kmsKeyRegion dekAltName) (\<lambda>_.
     then_do (lift (get_prop secrets ''MONGODB_URI'')) (\<lambda>u.
     then_do (initializeMongodb E u) (\<lambda>dbClient.
     then_do (initialize E dbClient) (\<lambda>encryptionInstance.
       let masterKey = \<lparr>key = kmsKeyArn, region = kmsKeyRegion\<rparr>;
           opts = \<lparr>masterKey = masterKey, keyAltNames = [dekAltName]\<rparr> in
       then_do (external (CreateDataKey encryptionInstance ''aws'' opts)
                  (createDataKey E encryptionInstance ''aws'' opts)) (\<lambda>dataKey.
         let uuidString = v4 (rng E) (buffer dataKey) in
         then_do (console_log (JStr uuidString)) (\<lambda>_.
         then_do (lift (JSON_stringify (JObj [(''dataKeyUUID'', JStr uuidString)]))) (\<lambda>b.
           ret \<lparr>statusCode = 200, body = b\<rparr>)))))))))"

text \<open>
  The \<^verbatim>\<open>catch\<close> block: it logs the caught value, serialises it, and serialises the object
  that holds the result. Nothing guards the two \<^verbatim>\<open>JSON.stringify\<close> calls: what they throw
  leaves the handler.
\<close>

definition lambdaHandler_catch :: "jsval \<Rightarrow> ('s, envelope) comp" where
  "lambdaHandler_catch err =
     then_do (console_log err) (\<lambda>_.
     then_do (lift (JSON_stringify err)) (\<lambda>txt.
     then_do (lift (JSON_stringify (JObj [(''message'', JStr ''error''), (''error'', txt)]))) (\<lambda>b.
       ret \<lparr>statusCode = 200, body = b\<rparr>)))"

definition lambdaHandler :: "env \<Rightarrow> jsval \<Rightarrow> ('s, envelope) comp" where
  "lambdaHandler E event = try_catch (lambdaHandler_try E event) lambdaHandler_catch"

section \<open>The environment-variable variant (lines 123 to 230)\<close>

text \<open>The two module-level \<^verbatim>\<open>let\<close> bindings; both start as \<^verbatim>\<open>null\<close>.\<close>

record module =
  encryptionInstance :: "client_encryption option"
  dbClient :: "mongo_client option"

definition module_init :: module where
  "module_init = \<lparr>encryptionInstance = None, dbClient = None\<rparr>"

definition read_module :: "(module, module) comp" where
  "read_module s = (Inr s, s, [])"

definition assign_encryptionInstance :: "client_encryption \<Rightarrow> (module, unit) comp" where
  "assign_encryptionInstance ce s = (Inr (), s\<lparr>encryptionInstance := Some ce\<rparr>, [])"

definition initializeMongodb_env :: "env \<Rightarrow> (module, mongo_client) comp" where
  "initializeMongodb_env E =
     try_catch
       (let client = \<lparr>uri = process_env_MONGODB_URI E, useNewUrlParser = True,
                      useUnifiedTopology = True\<rparr> in
        then_do (external (MongoConnect client) (failed (mongo_connect E client)))
          (\<lambda>_. ret client))
       (\<lambda>err. raise err)"

definition initialize_env :: "env \<Rightarrow> (module, client_encryption option) comp" where
  "initialize_env E =
     then_do (external ProviderChain (provider E)) (\<lambda>aws.
     then_do read_module (\<lambda>m.
       let opts = \<lparr>keyVaultNamespace = KEY_NAMESPACE,
                   kmsProviders_aws = \<lparr>accessKeyId = accessKeyId aws,
                                       secretAccessKey = secretAccessKey aws,
                                       sessionToken = sessionToken aws\<rparr>\<rparr> in
       then_do (external (NewClientEncryption (dbClient m) opts)
                  (failed (new_ClientEncryption E (dbClient m) opts))) (\<lambda>_.
       then_do (assign_encryptionInstance \<lparr>ce_client = dbClient m, ce_options = opts\<rparr>) (\<lambda>_.
       then_do read_module (\<lambda>m'. ret (encryptionInstance m'))))))"

text \<open>
  \<^verbatim>\<open>encryptionInstance.createDataKey(...)\<close> reads the module-level binding: a TypeError
  while it is \<^verbatim>\<open>null\<close>.
\<close>

definition the_encryptionInstance :: "(module, client_encryption) comp" where
  "the_encryptionInstance =
     then_do read_module (\<lambda>m.
       case encryptionInstance m of
         None \<Rightarrow> raise (read_TypeError JNull ''createDataKey'')
       | Some ce \<Rightarrow> ret ce)"

definition lambdaHandler_env_try :: "env \<Rightarrow> jsval \<Rightarrow> (module, envelope) comp" where
  "lambdaHandler_env_try E event =
     then_do (destructure event) (\<lambda>(kmsKeyArn, kmsKeyRegion, dekAltName).
     then_do (check_parameters kmsKeyArn kmsKeyRegion dekAltName) (\<lambda>_.
     then_do (initializeMongodb_env E) (\<lambda>_.
     then_do (initialize_env E) (\<lambda>_.
       let masterKey = \<lparr>key = kmsKeyArn, region = kmsKeyRegion\<rparr>;
           opts = \<lparr>masterKey = masterKey, keyAltNames = [dekAltName]\<rparr> in
       then_do the_encryptionInstance (\<lambda>ce.
       then_do (external (CreateDataKey ce ''aws'' opts) (createDataKey E ce ''aws'' opts)) (\<lambda>dataKey.
         let uuidString = v4 (rng E) (buffer dataKey) in
         then_do (console_log (JStr uuidString)) (\<lambda>_.
         then_do (lift (JSON_stringify (JObj [(''dataKeyUUID'', JStr uuidString)]))) (\<lambda>b.
           ret \<lparr>statusCode = 200, body = b\<rparr>))))))))"

definition lambdaHandler_env :: "env \<Rightarrow> jsval \<Rightarrow> (module, envelope) comp" where
  "lambdaHandler_env E event = try_catch (lambdaHandler_env_try E event) lambdaHandler_catch"

text \<open>Invocations one after the other in one execution context: the module state is kept.\<close>

fun invocations :: "(env \<times> jsval) list \<Rightarrow> module \<Rightarrow> module" where
  "invocations [] m = m"
| "invocations ((E, event) # rest) m = invocations rest (fst (snd (lambdaHandler_env E event m)))"

section \<open>Reading an outcome and a trace\<close>

definition result_of :: "'r \<times> 's \<times> call list \<Rightarrow> 'r" where
  "result_of x = fst x"

definition state_of :: "'r \<times> 's \<times> call list \<Rightarrow> 's" where
  "state_of x = fst (snd x)"

definition calls_of :: "'r \<times> 's \<times> call list \<Rightarrow> call list" where
  "calls_of x = snd (snd x)"

fun is_CreateDataKey :: "call \<Rightarrow> bool" where
  "is_CreateDataKey (CreateDataKey ce p opts) = True"
| "is_CreateDataKey c = False"

fun is_MongoConnect :: "call \<Rightarrow> bool" where
  "is_MongoConnect (MongoConnect c) = True"
| "is_MongoConnect c = False"

text \<open>The database clients handed to the constructor of the encryption client, in order.\<close>

fun constructed_with :: "call list \<Rightarrow> mongo_client option list" where
  "constructed_with [] = []"
| "constructed_with (NewClientEncryption db opts # t) = db # constructed_with t"
| "constructed_with (c # t) = constructed_with t"

text \<open>The object literals of the source, named for the statements below.\<close>

definition secrets_call :: call where
  "secrets_call = SecretsSend ''ap-south-1'' ''staging-platform-pii-lambda''"

definition client_for :: "jsval \<Rightarrow> mongo_client" where
  "client_for u = \<lparr>uri = u, useNewUrlParser = True, useUnifiedTopology = True\<rparr>"

definition encryption_opts :: "aws_identity \<Rightarrow> encryption_options" where
  "encryption_opts aws =
     \<lparr>keyVaultNamespace = KEY_NAMESPACE,
      kmsProviders_aws = \<lparr>accessKeyId = accessKeyId aws,
                          secretAccessKey = secretAccessKey aws,
                          sessionToken = sessionToken aws\<rparr>\<rparr>"

definition key_opts :: "jsval \<Rightarrow> jsval \<Rightarrow> jsval \<Rightarrow> data_key_options" where
  "key_opts a r d = \<lparr>masterKey = \<lparr>key = a, region = r\<rparr>, keyAltNames = [d]\<rparr>"

text \<open>A request field that is absent or the empty string.\<close>

fun missing :: "jsval \<Rightarrow> bool" where
  "missing JUndefined = True"
| "missing (JStr s) = (s = [])"
| "missing v = False"

text \<open>\<open>contains s p\<close>: the text \<open>p\<close> occurs in \<open>s\<close>.\<close>

fun starts_with :: "string \<Rightarrow> string \<Rightarrow> bool" where
  "starts_with s [] = True"
| "starts_with [] (p # ps) = False"
| "starts_with (c # s) (p # ps) = (c = p \<and> starts_with s ps)"

fun contains :: "string \<Rightarrow> string \<Rightarrow> bool" where
  "contains [] p = (p = [])"
| "contains (c # s) p = (if starts_with (c # s) p then True else contains s p)"

definition quoted :: "string \<Rightarrow> string" where
  "quoted s = [CHR 0x22] @ s @ [CHR 0x22]"

text \<open>
  The two envelopes, written out: \<^verbatim>\<open>{"dataKeyUUID":...}\<close> around the quoted UUID string, and
  \<^verbatim>\<open>{"message":"error","error":...}\<close> around the quoted text of the serialised failure, the
  \<^verbatim>\<open>error\<close> property left out when that serialisation gave \<^verbatim>\<open>undefined\<close>.
\<close>

definition success_envelope :: "string \<Rightarrow> envelope" where
  "success_envelope uuidString =
     \<lparr>statusCode = 200,
      body = JStr (''{'' @ quoted ''dataKeyUUID'' @ '':'' @ json_quote uuidString @ ''}'')\<rparr>"

definition error_envelope :: "string option \<Rightarrow> envelope" where
  "error_envelope txt =
     \<lparr>statusCode = 200,
      body = JStr (''{'' @ quoted ''message'' @ '':'' @ quoted ''error'' @
                   (case txt of None \<Rightarrow> []
                    | Some t \<Rightarrow> '','' @ quoted ''error'' @ '':'' @ json_quote t) @ ''}'')\<rparr>"

section \<open>Concrete requests and collaborators\<close>

text \<open>A key identifier: the 16 bytes of a version-4 UUID.\<close>

definition key_id :: "byte list" where
  "key_id = [0x00, 0x01, 0x02, 0x03, 0x04, 0x05, 0x46, 0x07,
             0x88, 0x09, 0x0a, 0x0b, 0x0c, 0x0d, 0x0e, 0x0f]"

text \<open>
  Every collaborator answers; the secret is the text \<^verbatim>\<open>{"MONGODB_URI":"mongodb://db"}\<close>,
  which \<^verbatim>\<open>JSON.parse\<close> reads, and the environment holds the same URI.
\<close>

definition secret_text :: string where
  "secret_text = ''{'' @ quoted ''MONGODB_URI'' @ '':'' @ quoted ''mongodb://db'' @ ''}''"

definition E_ok :: env where
  "E_ok =
     \<lparr>sm_send = (\<lambda>reg secretId. Inr (JStr secret_text)),
      JSON_parse =
        (\<lambda>v. if v = JStr secret_text then Inr (JObj [(''MONGODB_URI'', JStr ''mongodb://db'')])
              else Inl (JError ''SyntaxError'' ''Unexpected token in JSON'' [])),
      mongo_connect = (\<lambda>c. None),
      provider = Inr \<lparr>accessKeyId = JStr ''AK'', secretAccessKey = JStr ''SK'',
                      sessionToken = JUndefined\<rparr>,
      new_ClientEncryption = (\<lambda>db opts. None),
      createDataKey = (\<lambda>ce p opts. Inr \<lparr>buffer = key_id\<rparr>),
      rng = [0xff, 0xff, 0xff, 0xff, 0xff, 0xff, 0xff, 0xff,
             0xff, 0xff, 0xff, 0xff, 0xff, 0xff, 0xff, 0xff],
      process_env_MONGODB_URI = JStr ''mongodb://db''\<rparr>"

definition request_ok :: jsval where
  "request_ok =
     JObj [(''kmsKeyArn'', JStr ''arn:aws:kms:ap-south-1:111122223333:key/abc''),
           (''kmsKeyRegion'', JStr ''ap-south-1''),
           (''dekAltName'', JStr ''service-x-dek'')]"

definition request_no_arn :: jsval where
  "request_no_arn =
     JObj [(''kmsKeyArn'', JStr []), (''kmsKeyRegion'', JStr ''ap-south-1''),
           (''dekAltName'', JStr ''x'')]"

definition request_empty :: jsval where
  "request_empty = JObj []"

definition secrets_error :: jsval where
  "secrets_error =
     JError ''ResourceNotFoundException'' ''Secrets Manager can not find the specified secret.'' []"

definition E_secrets_fail :: env where
  "E_secrets_fail = E_ok\<lparr>sm_send := (\<lambda>reg secretId. Inl secrets_error)\<rparr>"



text \<open>
  Failures that \<^verbatim>\<open>JSON.stringify\<close> cannot serialise: the driver rejects with an Error that
  carries, in an enumerable property, the connection it came from, an object that reaches
  itself; key creation rejects with such an Error; the credential chain rejects with an
  Error that holds a BigInt.
\<close>

definition cyclic_error :: jsval where
  "cyclic_error =
     JError ''MongoNetworkError'' ''connection closed''
       [(''code'', JStr ''ECONNRESET''), (''connection'', JCyclic)]"


definition E_create_cyclic :: env where
  "E_create_cyclic = E_ok\<lparr>createDataKey := (\<lambda>ce p opts. Inl cyclic_error)\<rparr>"

definition bigint_error :: jsval where
  "bigint_error =
     JError ''CredentialsProviderError'' ''Token is expired''
       [(''tryNextLink'', JBool False), (''expiration'', JBigInt 1700000000000)]"

definition E_credentials_bigint :: env where
  "E_credentials_bigint = E_ok\<lparr>provider := Inl bigint_error\<rparr>"

text \<open>
  The credential chain fails with an Error that carries enumerable own properties, as the
  AWS SDK's \<^verbatim>\<open>CredentialsProviderError\<close> does.
\<close>

definition credentials_error :: jsval where
  "credentials_error =
     JError ''CredentialsProviderError'' ''Could not load credentials from any providers''
       [(''tryNextLink'', JBool False), (''name'', JStr ''CredentialsProviderError'')]"

definition credentials_text :: string where
  "credentials_text =
     ''{'' @ quoted ''tryNextLink'' @ '':false,'' @ quoted ''name'' @ '':'' @
     quoted ''CredentialsProviderError'' @ ''}''"

definition E_credentials_fail :: env where
  "E_credentials_fail = E_ok\<lparr>provider := Inl credentials_error\<rparr>"

text \<open>An encryption library that cannot create a key without a database client.\<close>

definition null_client_error :: jsval where
  "null_client_error =
     JError ''TypeError''
       (''Cannot read properties of null (reading '' @ [CHR 0x27] @ ''db'' @ [CHR 0x27] @ '')'') []"

definition E_needs_client :: env where
  "E_needs_client =
     E_ok\<lparr>createDataKey :=
            (\<lambda>ce p opts. case ce_client ce of None \<Rightarrow> Inl null_client_error
                          | Some db \<Rightarrow> Inr \<lparr>buffer = key_id\<rparr>)\<rparr>"

text \<open>
  The two bodies met below: \<^verbatim>\<open>{"message":"error","error":"{}"}\<close> and
  \<^verbatim>\<open>{"dataKeyUUID":"ffffffff-ffff-4fff-bfff-ffffffffffff"}\<close>.
\<close>

definition empty_error_body :: string where
  "empty_error_body =
     ''{'' @ quoted ''message'' @ '':'' @ quoted ''error'' @ '','' @
     quoted ''error'' @ '':'' @ quoted ''{}'' @ ''}''"

definition success_body :: string where
  "success_body =
     ''{'' @ quoted ''dataKeyUUID'' @ '':'' @ quoted ''ffffffff-ffff-4fff-bfff-ffffffffffff'' @ ''}''"

section \<open>What each step does\<close>

lemmas comp_defs = ret_def raise_def lift_def external_def then_do_def try_catch_def
  failed_def console_log_def

lemmas outcome_defs = result_of_def state_of_def calls_of_def

lemma json_quote_names:
  "json_quote ''dataKeyUUID'' = quoted ''dataKeyUUID''"
  "json_quote ''message'' = quoted ''message''"
  "json_quote ''error'' = quoted ''error''"
  by (simp_all add: json_quote_def json_escape_char_def quoted_def)

lemma JSON_stringify_dataKeyUUID:
  "JSON_stringify (JObj [(''dataKeyUUID'', JStr u)]) = Inr (body (success_envelope u))"
  by (simp add: JSON_stringify_def success_envelope_def json_quote_names)

lemma JSON_stringify_message_error:
  "JSON_stringify (JObj [(''message'', JStr ''error''), (''error'', JUndefined)])
     = Inr (body (error_envelope None))"
  "JSON_stringify (JObj [(''message'', JStr ''error''), (''error'', JStr t)])
     = Inr (body (error_envelope (Some t)))"
  by (simp_all add: JSON_stringify_def error_envelope_def json_quote_names)

lemma envelope_with_body:
  "\<lparr>statusCode = 200, body = body (success_envelope u)\<rparr> = success_envelope u"
  "\<lparr>statusCode = 200, body = body (error_envelope txt)\<rparr> = error_envelope txt"
  by (simp_all add: success_envelope_def error_envelope_def)

lemma then_do_cases:
  "then_do m f s =
     (case m s of
        (Inl e, s1, t1) \<Rightarrow> (Inl e, s1, t1)
      | (Inr a, s1, t1) \<Rightarrow> (fst (f a s1), fst (snd (f a s1)), t1 @ snd (snd (f a s1))))"
  by (simp add: then_do_def split: prod.split sum.split)

lemma getSecretManagerData_unfold:
  "getSecretManagerData E s =
     (case sm_send E ''ap-south-1'' ''staging-platform-pii-lambda'' of
        Inl e \<Rightarrow> (Inl e, s, [secrets_call])
      | Inr str \<Rightarrow> (JSON_parse E str, s, [secrets_call]))"
  by (simp add: getSecretManagerData_def comp_defs secrets_call_def split: sum.split)

lemma initializeMongodb_unfold:
  "initializeMongodb E u s =
     (let client = \<lparr>uri = u, useNewUrlParser = True, useUnifiedTopology = True\<rparr> in
      case mongo_connect E client of
        Some e \<Rightarrow> (Inl e, s, [MongoConnect client])
      | None \<Rightarrow> (Inr client, s, [MongoConnect client]))"
  by (simp add: initializeMongodb_def comp_defs Let_def split: option.split)

lemma initialize_unfold:
  "initialize E db s =
     (case provider E of
        Inl e \<Rightarrow> (Inl e, s, [ProviderChain])
      | Inr aws \<Rightarrow>
          (case new_ClientEncryption E (Some db) (encryption_opts aws) of
             Some e \<Rightarrow>
               (Inl e, s, [ProviderChain, NewClientEncryption (Some db) (encryption_opts aws)])
           | None \<Rightarrow>
               (Inr \<lparr>ce_client = Some db, ce_options = encryption_opts aws\<rparr>, s,
                [ProviderChain, NewClientEncryption (Some db) (encryption_opts aws)])))"
  by (simp add: initialize_def comp_defs Let_def encryption_opts_def
      split: option.split sum.split)

lemma lambdaHandler_try_unfold:
  "lambdaHandler_try E event s =
    (if event = JUndefined \<or> event = JNull then (Inl (destructure_TypeError event), s, [])
     else
       let a = property event ''kmsKeyArn''; r = property event ''kmsKeyRegion'';
           d = property event ''dekAltName'' in
       case sm_send E ''ap-south-1'' ''staging-platform-pii-lambda'' of
         Inl e \<Rightarrow> (Inl e, s, [secrets_call])
       | Inr str \<Rightarrow>
       (case JSON_parse E str of
         Inl e \<Rightarrow> (Inl e, s, [secrets_call])
       | Inr secrets \<Rightarrow>
       if falsy a \<or> falsy r \<or> falsy d then (Inl (parameter_error a r d), s, [secrets_call])
       else if secrets = JUndefined \<or> secrets = JNull
         then (Inl (read_TypeError secrets ''MONGODB_URI''), s, [secrets_call])
       else
       let db = \<lparr>uri = property secrets ''MONGODB_URI'', useNewUrlParser = True,
                 useUnifiedTopology = True\<rparr> in
       case mongo_connect E db of
         Some e \<Rightarrow> (Inl e, s, [secrets_call, MongoConnect db])
       | None \<Rightarrow>
       (case provider E of
         Inl e \<Rightarrow> (Inl e, s, [secrets_call, MongoConnect db, ProviderChain])
       | Inr aws \<Rightarrow>
       let ce = \<lparr>ce_client = Some db, ce_options = encryption_opts aws\<rparr>;
           new = NewClientEncryption (Some db) (encryption_opts aws) in
       case new_ClientEncryption E (Some db) (encryption_opts aws) of
         Some e \<Rightarrow> (Inl e, s, [secrets_call, MongoConnect db, ProviderChain, new])
       | None \<Rightarrow>
       (case createDataKey E ce ''aws'' (key_opts a r d) of
         Inl e \<Rightarrow> (Inl e, s, [secrets_call, MongoConnect db, ProviderChain, new,
                             CreateDataKey ce ''aws'' (key_opts a r d)])
       | Inr dataKey \<Rightarrow>
          (Inr (success_envelope (v4 (rng E) (buffer dataKey))), s,
           [secrets_call, MongoConnect db, ProviderChain, new,
            CreateDataKey ce ''aws'' (key_opts a r d),
            ConsoleLog (JStr (v4 (rng E) (buffer dataKey)))])))))"
  unfolding lambdaHandler_try_def key_opts_def [symmetric] Let_def
  by (simp add: then_do_cases getSecretManagerData_unfold initializeMongodb_unfold
      initialize_unfold destructure_def check_parameters_def get_prop_def raise_def ret_def lift_def
      external_def console_log_def JSON_stringify_dataKeyUUID envelope_with_body Let_def
      split: sum.split option.split)



lemma initializeMongodb_env_unfold:
  "initializeMongodb_env E s =
     (let client = \<lparr>uri = process_env_MONGODB_URI E, useNewUrlParser = True, useUnifiedTopology = True\<rparr> in
      case mongo_connect E client of
        Some e \<Rightarrow> (Inl e, s, [MongoConnect client])
      | None \<Rightarrow> (Inr client, s, [MongoConnect client]))"
  by (simp add: initializeMongodb_env_def comp_defs Let_def split: option.split)

lemma initialize_env_unfold:
  "initialize_env E m =
     (case provider E of
        Inl e \<Rightarrow> (Inl e, m, [ProviderChain])
      | Inr aws \<Rightarrow>
          (case new_ClientEncryption E (dbClient m) (encryption_opts aws) of
             Some e \<Rightarrow> (Inl e, m, [ProviderChain, NewClientEncryption (dbClient m) (encryption_opts aws)])
           | None \<Rightarrow> (Inr (Some \<lparr>ce_client = dbClient m, ce_options = encryption_opts aws\<rparr>),
                      m\<lparr>encryptionInstance := Some \<lparr>ce_client = dbClient m, ce_options = encryption_opts aws\<rparr>\<rparr>,
                      [ProviderChain, NewClientEncryption (dbClient m) (encryption_opts aws)])))"
  by (simp add: initialize_env_def comp_defs Let_def encryption_opts_def read_module_def
      assign_encryptionInstance_def split: option.split sum.split)

lemma lambdaHandler_env_try_unfold:
  "lambdaHandler_env_try E event m =
    (if event = JUndefined \<or> event = JNull then (Inl (destructure_TypeError event), m, [])
     else
       let a = property event ''kmsKeyArn''; r = property event ''kmsKeyRegion'';
           d = property event ''dekAltName'' in
       if falsy a \<or> falsy r \<or> falsy d then (Inl (parameter_error a r d), m, [])
       else
       let db = \<lparr>uri = process_env_MONGODB_URI E, useNewUrlParser = True,
                 useUnifiedTopology = True\<rparr> in
       case mongo_connect E db of
         Some e \<Rightarrow> (Inl e, m, [MongoConnect db])
       | None \<Rightarrow>
       (case provider E of
         Inl e \<Rightarrow> (Inl e, m, [MongoConnect db, ProviderChain])
       | Inr aws \<Rightarrow>
       let ce = \<lparr>ce_client = dbClient m, ce_options = encryption_opts aws\<rparr>;
           new = NewClientEncryption (dbClient m) (encryption_opts aws) in
       case new_ClientEncryption E (dbClient m) (encryption_opts aws) of
         Some e \<Rightarrow> (Inl e, m, [MongoConnect db, ProviderChain, new])
       | None \<Rightarrow>
       (case createDataKey E ce ''aws'' (key_opts a r d) of
         Inl e \<Rightarrow> (Inl e, m\<lparr>encryptionInstance := Some ce\<rparr>,
                    [MongoConnect db, ProviderChain, new, CreateDataKey ce ''aws'' (key_opts a r d)])
       | Inr dataKey \<Rightarrow>
          (Inr (success_envelope (v4 (rng E) (buffer dataKey))), m\<lparr>encryptionInstance := Some ce\<rparr>,
           [MongoConnect db, ProviderChain, new,
            CreateDataKey ce ''aws'' (key_opts a r d),
            ConsoleLog (JStr (v4 (rng E) (buffer dataKey)))]))))"
  unfolding lambdaHandler_env_try_def key_opts_def [symmetric] Let_def
  by (simp add: then_do_cases initializeMongodb_env_unfold
      initialize_env_unfold destructure_def check_parameters_def raise_def ret_def lift_def
      external_def console_log_def the_encryptionInstance_def read_module_def
      JSON_stringify_dataKeyUUID envelope_with_body Let_def
      split: sum.split option.split)

lemma lambdaHandler_catch_unfold:
  "lambdaHandler_catch err s =
     (case json_text err of
        Inl e \<Rightarrow> (Inl e, s, [ConsoleLog err])
      | Inr txt \<Rightarrow> (Inr (error_envelope txt), s, [ConsoleLog err]))"
proof (cases "json_text err")
  case (Inl e)
  then show ?thesis
    by (simp add: lambdaHandler_catch_def comp_defs JSON_stringify_def)
next
  case (Inr tx)
  then have "JSON_stringify err = Inr (case tx of None \<Rightarrow> JUndefined | Some t \<Rightarrow> JStr t)"
    by (simp add: JSON_stringify_def split: option.split)
  with Inr show ?thesis
    by (cases tx)
      (simp_all add: lambdaHandler_catch_def then_do_cases lift_def ret_def external_def
        console_log_def JSON_stringify_message_error envelope_with_body)
qed

lemma lambdaHandler_unfold:
  "lambdaHandler E event s =
     (case lambdaHandler_try E event s of
        (Inl err, s1, t) \<Rightarrow>
          (case json_text err of
             Inl e \<Rightarrow> (Inl e, s1, t @ [ConsoleLog err])
           | Inr txt \<Rightarrow> (Inr (error_envelope txt), s1, t @ [ConsoleLog err]))
      | (Inr envl, s1, t) \<Rightarrow> (Inr envl, s1, t))"
  by (simp add: lambdaHandler_def try_catch_def lambdaHandler_catch_unfold
      split: prod.splits sum.splits)

lemma lambdaHandler_env_unfold:
  "lambdaHandler_env E event m =
     (case lambdaHandler_env_try E event m of
        (Inl err, m1, t) \<Rightarrow>
          (case json_text err of
             Inl e \<Rightarrow> (Inl e, m1, t @ [ConsoleLog err])
           | Inr txt \<Rightarrow> (Inr (error_envelope txt), m1, t @ [ConsoleLog err]))
      | (Inr envl, m1, t) \<Rightarrow> (Inr envl, m1, t))"
  by (simp add: lambdaHandler_env_def try_catch_def lambdaHandler_catch_unfold
      split: prod.splits sum.splits)

lemma lambdaHandler_try_cases [case_names destructure send parse parameters uri connect
    provider construct create success]:
  fixes E :: env and event :: jsval and s :: 's
  defines "a \<equiv> property event ''kmsKeyArn''"
    and "r \<equiv> property event ''kmsKeyRegion''"
    and "d \<equiv> property event ''dekAltName''"
  obtains
    "event = JUndefined \<or> event = JNull"
    "lambdaHandler_try E event s = (Inl (destructure_TypeError event), s, [])"
  | e where "event \<noteq> JUndefined" "event \<noteq> JNull"
      "sm_send E ''ap-south-1'' ''staging-platform-pii-lambda'' = Inl e"
      "lambdaHandler_try E event s = (Inl e, s, [secrets_call])"
  | str e where "event \<noteq> JUndefined" "event \<noteq> JNull"
      "sm_send E ''ap-south-1'' ''staging-platform-pii-lambda'' = Inr str"
      "JSON_parse E str = Inl e"
      "lambdaHandler_try E event s = (Inl e, s, [secrets_call])"
  | str secrets where "event \<noteq> JUndefined" "event \<noteq> JNull"
      "sm_send E ''ap-south-1'' ''staging-platform-pii-lambda'' = Inr str"
      "JSON_parse E str = Inr secrets"
      "falsy a \<or> falsy r \<or> falsy d"
      "lambdaHandler_try E event s = (Inl (parameter_error a r d), s, [secrets_call])"
  | str secrets where "event \<noteq> JUndefined" "event \<noteq> JNull"
      "sm_send E ''ap-south-1'' ''staging-platform-pii-lambda'' = Inr str"
      "JSON_parse E str = Inr secrets"
      "\<not> falsy a" "\<not> falsy r" "\<not> falsy d"
      "secrets = JUndefined \<or> secrets = JNull"
      "lambdaHandler_try E event s = (Inl (read_TypeError secrets ''MONGODB_URI''), s, [secrets_call])"
  | str secrets db e where "event \<noteq> JUndefined" "event \<noteq> JNull"
      "sm_send E ''ap-south-1'' ''staging-platform-pii-lambda'' = Inr str"
      "JSON_parse E str = Inr secrets"
      "\<not> falsy a" "\<not> falsy r" "\<not> falsy d"
      "db = client_for (property secrets ''MONGODB_URI'')"
      "mongo_connect E db = Some e"
      "lambdaHandler_try E event s = (Inl e, s, [secrets_call, MongoConnect db])"
  | str secrets db e where "event \<noteq> JUndefined" "event \<noteq> JNull"
      "sm_send E ''ap-south-1'' ''staging-platform-pii-lambda'' = Inr str"
      "JSON_parse E str = Inr secrets"
      "\<not> falsy a" "\<not> falsy r" "\<not> falsy d"
      "db = client_for (property secrets ''MONGODB_URI'')"
      "mongo_connect E db = None"
      "provider E = Inl e"
      "lambdaHandler_try E event s = (Inl e, s, [secrets_call, MongoConnect db, ProviderChain])"
  | str secrets db aws e where "event \<noteq> JUndefined" "event \<noteq> JNull"
      "sm_send E ''ap-south-1'' ''staging-platform-pii-lambda'' = Inr str"
      "JSON_parse E str = Inr secrets"
      "\<not> falsy a" "\<not> falsy r" "\<not> falsy d"
      "db = client_for (property secrets ''MONGODB_URI'')"
      "mongo_connect E db = None"
      "provider E = Inr aws"
      "new_ClientEncryption E (Some db) (encryption_opts aws) = Some e"
      "lambdaHandler_try E event s =
         (Inl e, s, [secrets_call, MongoConnect db, ProviderChain,
                     NewClientEncryption (Some db) (encryption_opts aws)])"
  | str secrets db aws ce e where "event \<noteq> JUndefined" "event \<noteq> JNull"
      "sm_send E ''ap-south-1'' ''staging-platform-pii-lambda'' = Inr str"
      "JSON_parse E str = Inr secrets"
      "\<not> falsy a" "\<not> falsy r" "\<not> falsy d"
      "db = client_for (property secrets ''MONGODB_URI'')"
      "mongo_connect E db = None"
      "provider E = Inr aws"
      "new_ClientEncryption E (Some db) (encryption_opts aws) = None"
      "ce = \<lparr>ce_client = Some db, ce_options = encryption_opts aws\<rparr>"
      "createDataKey E ce ''aws'' (key_opts a r d) = Inl e"
      "lambdaHandler_try E event s =
         (Inl e, s, [secrets_call, MongoConnect db, ProviderChain,
                     NewClientEncryption (Some db) (encryption_opts aws),
                     CreateDataKey ce ''aws'' (key_opts a r d)])"
  | str secrets db aws ce dataKey where "event \<noteq> JUndefined" "event \<noteq> JNull"
      "sm_send E ''ap-south-1'' ''staging-platform-pii-lambda'' = Inr str"
      "JSON_parse E str = Inr secrets"
      "\<not> falsy a" "\<not> falsy r" "\<not> falsy d"
      "db = client_for (property secrets ''MONGODB_URI'')"
      "mongo_connect E db = None"
      "provider E = Inr aws"
      "new_ClientEncryption E (Some db) (encryption_opts aws) = None"
      "ce = \<lparr>ce_client = Some db, ce_options = encryption_opts aws\<rparr>"
      "createDataKey E ce ''aws'' (key_opts a r d) = Inr dataKey"
      "lambdaHandler_try E event s =
         (Inr (success_envelope (v4 (rng E) (buffer dataKey))), s,
          [secrets_call, MongoConnect db, ProviderChain,
           NewClientEncryption (Some db) (encryption_opts aws),
           CreateDataKey ce ''aws'' (key_opts a r d),
           ConsoleLog (JStr (v4 (rng E) (buffer dataKey)))])"
proof (cases "event = JUndefined \<or> event = JNull")
  case True
  then show ?thesis using that(1) by (simp add: lambdaHandler_try_unfold)
next
  case ev: False
  note U = lambdaHandler_try_unfold [of E event s, folded a_def r_def d_def]
  show ?thesis
  proof (cases "sm_send E ''ap-south-1'' ''staging-platform-pii-lambda''")
    case (Inl e)
    then show ?thesis using ev that(2) [of e] by (simp add: U)
  next
    case send: (Inr str)
    show ?thesis
    proof (cases "JSON_parse E str")
      case (Inl e)
      then show ?thesis using ev send that(3) [of str e] by (simp add: U)
    next
      case parse: (Inr secrets)
      show ?thesis
      proof (cases "falsy a \<or> falsy r \<or> falsy d")
        case True
        then show ?thesis using ev send parse that(4) [of str secrets] by (simp add: U)
      next
        case par: False
        show ?thesis
        proof (cases "secrets = JUndefined \<or> secrets = JNull")
          case True
          then show ?thesis using ev send parse par that(5) [of str secrets] by (simp add: U)
        next
          case sec: False
          define db where "db = client_for (property secrets ''MONGODB_URI'')"
          note V = U [unfolded Let_def, folded client_for_def, folded db_def]
          show ?thesis
          proof (cases "mongo_connect E db")
            case (Some e)
            then show ?thesis using ev send parse par sec db_def that(6) [of str secrets db e]
              by (simp add: V)
          next
            case con: None
            show ?thesis
            proof (cases "provider E")
              case (Inl e)
              then show ?thesis using ev send parse par sec db_def con that(7) [of str secrets db e]
                by (simp add: V)
            next
              case prov: (Inr aws)
              show ?thesis
              proof (cases "new_ClientEncryption E (Some db) (encryption_opts aws)")
                case (Some e)
                then show ?thesis
                  using ev send parse par sec db_def con prov that(8) [of str secrets db aws e]
                  by (simp add: V)
              next
                case new: None
                define ce where "ce = \<lparr>ce_client = Some db, ce_options = encryption_opts aws\<rparr>"
                show ?thesis
                proof (cases "createDataKey E ce ''aws'' (key_opts a r d)")
                  case (Inl e)
                  then show ?thesis
                    using ev send parse par sec db_def con prov new ce_def
                      that(9) [of str secrets db aws ce e]
                    by (simp add: V)
                next
                  case (Inr dataKey)
                  then show ?thesis
                    using ev send parse par sec db_def con prov new ce_def
                      that(10) [of str secrets db aws ce dataKey]
                    by (simp add: V)
                qed
              qed
            qed
          qed
        qed
      qed
    qed
  qed
qed


lemma lambdaHandler_env_try_cases [case_names destructure parameters connect provider
    construct create success]:
  fixes E :: env and event :: jsval and m :: module
  defines "a \<equiv> property event ''kmsKeyArn''"
    and "r \<equiv> property event ''kmsKeyRegion''"
    and "d \<equiv> property event ''dekAltName''"
  obtains
    "event = JUndefined \<or> event = JNull"
    "lambdaHandler_env_try E event m = (Inl (destructure_TypeError event), m, [])"
  | "event \<noteq> JUndefined" "event \<noteq> JNull"
      "falsy a \<or> falsy r \<or> falsy d"
      "lambdaHandler_env_try E event m = (Inl (parameter_error a r d), m, [])"
  | db e where "event \<noteq> JUndefined" "event \<noteq> JNull"
      "\<not> falsy a" "\<not> falsy r" "\<not> falsy d"
      "db = client_for (process_env_MONGODB_URI E)"
      "mongo_connect E db = Some e"
      "lambdaHandler_env_try E event m = (Inl e, m, [MongoConnect db])"
  | db e where "event \<noteq> JUndefined" "event \<noteq> JNull"
      "\<not> falsy a" "\<not> falsy r" "\<not> falsy d"
      "db = client_for (process_env_MONGODB_URI E)"
      "mongo_connect E db = None"
      "provider E = Inl e"
      "lambdaHandler_env_try E event m = (Inl e, m, [MongoConnect db, ProviderChain])"
  | db aws e where "event \<noteq> JUndefined" "event \<noteq> JNull"
      "\<not> falsy a" "\<not> falsy r" "\<not> falsy d"
      "db = client_for (process_env_MONGODB_URI E)"
      "mongo_connect E db = None"
      "provider E = Inr aws"
      "new_ClientEncryption E (dbClient m) (encryption_opts aws) = Some e"
      "lambdaHandler_env_try E event m =
         (Inl e, m, [MongoConnect db, ProviderChain,
                     NewClientEncryption (dbClient m) (encryption_opts aws)])"
  | db aws ce e where "event \<noteq> JUndefined" "event \<noteq> JNull"
      "\<not> falsy a" "\<not> falsy r" "\<not> falsy d"
      "db = client_for (process_env_MONGODB_URI E)"
      "mongo_connect E db = None"
      "provider E = Inr aws"
      "new_ClientEncryption E (dbClient m) (encryption_opts aws) = None"
      "ce = \<lparr>ce_client = dbClient m, ce_options = encryption_opts aws\<rparr>"
      "createDataKey E ce ''aws'' (key_opts a r d) = Inl e"
      "lambdaHandler_env_try E event m =
         (Inl e, m\<lparr>encryptionInstance := Some ce\<rparr>,
          [MongoConnect db, ProviderChain,
           NewClientEncryption (dbClient m) (encryption_opts aws),
           CreateDataKey ce ''aws'' (key_opts a r d)])"
  | db aws ce dataKey where "event \<noteq> JUndefined" "event \<noteq> JNull"
      "\<not> falsy a" "\<not> falsy r" "\<not> falsy d"
      "db = client_for (process_env_MONGODB_URI E)"
      "mongo_connect E db = None"
      "provider E = Inr aws"
      "new_ClientEncryption E (dbClient m) (encryption_opts aws) = None"
      "ce = \<lparr>ce_client = dbClient m, ce_options = encryption_opts aws\<rparr>"
      "createDataKey E ce ''aws'' (key_opts a r d) = Inr dataKey"
      "lambdaHandler_env_try E event m =
         (Inr (success_envelope (v4 (rng E) (buffer dataKey))),
          m\<lparr>encryptionInstance := Some ce\<rparr>,
          [MongoConnect db, ProviderChain,
           NewClientEncryption (dbClient m) (encryption_opts aws),
           CreateDataKey ce ''aws'' (key_opts a r d),
           ConsoleLog (JStr (v4 (rng E) (buffer dataKey)))])"
proof (cases "event = JUndefined \<or> event = JNull")
  case True
  then show ?thesis using that(1) by (simp add: lambdaHandler_env_try_unfold)
next
  case ev: False
  define db where "db = client_for (process_env_MONGODB_URI E)"
  note U = lambdaHandler_env_try_unfold [of E event m, folded a_def r_def d_def,
      unfolded Let_def, folded client_for_def, folded db_def]
  show ?thesis
  proof (cases "falsy a \<or> falsy r \<or> falsy d")
    case True
    then show ?thesis using ev that(2) by (simp add: U)
  next
    case par: False
    show ?thesis
    proof (cases "mongo_connect E db")
      case (Some e)
      then show ?thesis using ev par db_def that(3) [of db e] by (simp add: U)
    next
      case con: None
      show ?thesis
      proof (cases "provider E")
        case (Inl e)
        then show ?thesis using ev par db_def con that(4) [of db e] by (simp add: U)
      next
        case prov: (Inr aws)
        show ?thesis
        proof (cases "new_ClientEncryption E (dbClient m) (encryption_opts aws)")
          case (Some e)
          then show ?thesis using ev par db_def con prov that(5) [of db aws e]
            by (simp add: U)
        next
          case new: None
          define ce where "ce = \<lparr>ce_client = dbClient m, ce_options = encryption_opts aws\<rparr>"
          show ?thesis
          proof (cases "createDataKey E ce ''aws'' (key_opts a r d)")
            case (Inl e)
            then show ?thesis
              using ev par db_def con prov new ce_def that(6) [of db aws ce e]
              by (simp add: U)
          next
            case (Inr dataKey)
            then show ?thesis
              using ev par db_def con prov new ce_def that(7) [of db aws ce dataKey]
              by (simp add: U)
          qed
        qed
      qed
    qed
  qed
qed

section \<open>The response envelope\<close>

lemma lambdaHandler_try_success:
  "result_of (lambdaHandler_try E event s) = Inr envl \<Longrightarrow>
     \<exists>u. envl = success_envelope u"
  by (cases E event s rule: lambdaHandler_try_cases) (auto simp: outcome_defs)

lemma lambdaHandler_env_try_success:
  "result_of (lambdaHandler_env_try E event m) = Inr envl \<Longrightarrow>
     \<exists>u. envl = success_envelope u"
  by (cases E event m rule: lambdaHandler_env_try_cases) (auto simp: outcome_defs)

text \<open>
  What the handler gives back: the envelope of the \<^verbatim>\<open>try\<close> block when it completes;
  when it throws \<open>err\<close>, the error envelope around the serialised \<open>err\<close>, or the TypeError
  of \<^verbatim>\<open>JSON.stringify(err)\<close>, thrown out of the handler.
\<close>

lemma lambdaHandler_result:
  "result_of (lambdaHandler E event s) =
     (case result_of (lambdaHandler_try E event s) of
        Inl err \<Rightarrow> (case json_text err of Inl e \<Rightarrow> Inl e | Inr t \<Rightarrow> Inr (error_envelope t))
      | Inr envl \<Rightarrow> Inr envl)"
  by (simp add: lambdaHandler_unfold outcome_defs split: prod.split sum.split)

lemma lambdaHandler_env_result:
  "result_of (lambdaHandler_env E event m) =
     (case result_of (lambdaHandler_env_try E event m) of
        Inl err \<Rightarrow> (case json_text err of Inl e \<Rightarrow> Inl e | Inr t \<Rightarrow> Inr (error_envelope t))
      | Inr envl \<Rightarrow> Inr envl)"
  by (simp add: lambdaHandler_env_unfold outcome_defs split: prod.split sum.split)

lemma lambdaHandler_calls:
  "calls_of (lambdaHandler E event s) =
     calls_of (lambdaHandler_try E event s) @
     (case result_of (lambdaHandler_try E event s) of
        Inl err \<Rightarrow> [ConsoleLog err] | Inr envl \<Rightarrow> [])"
  by (simp add: lambdaHandler_unfold outcome_defs split: prod.split sum.split)

lemma lambdaHandler_env_calls:
  "calls_of (lambdaHandler_env E event m) =
     calls_of (lambdaHandler_env_try E event m) @
     (case result_of (lambdaHandler_env_try E event m) of
        Inl err \<Rightarrow> [ConsoleLog err] | Inr envl \<Rightarrow> [])"
  by (simp add: lambdaHandler_env_unfold outcome_defs split: prod.split sum.split)

lemma lambdaHandler_state:
  "state_of (lambdaHandler E event s) = state_of (lambdaHandler_try E event s)"
  by (simp add: lambdaHandler_unfold outcome_defs split: prod.split sum.split)

lemma lambdaHandler_env_state:
  "state_of (lambdaHandler_env E event m) = state_of (lambdaHandler_env_try E event m)"
  by (simp add: lambdaHandler_env_unfold outcome_defs split: prod.split sum.split)

lemma json_text_plain_Error: "json_text (JError n msg []) = Inr (Some ''{}'')"
  by simp

lemma error_envelope_plain_Error:
  "error_envelope (Some ''{}'') = \<lparr>statusCode = 200, body = JStr empty_error_body\<rparr>"
  by (simp add: error_envelope_def json_quote_def json_escape_char_def empty_error_body_def
      quoted_def)

text \<open>
  C3 does not hold on the code for every failure mode. When the credential chain rejects
  with an Error that holds a BigInt, \<^verbatim>\<open>JSON.stringify(err)\<close> in the \<^verbatim>\<open>catch\<close> block throws
  a TypeError: the handler has no result, so no statusCode 200 and no body. Both variants.
\<close>

theorem bigint_failure_gives_no_status_code:
  "result_of (lambdaHandler_try E_credentials_bigint request_ok ()) = Inl bigint_error \<and>
   json_text bigint_error = Inl bigint_TypeError \<and>
   result_of (lambdaHandler E_credentials_bigint request_ok ()) = Inl bigint_TypeError \<and>
   result_of (lambdaHandler_env_try E_credentials_bigint request_ok module_init)
     = Inl bigint_error \<and>
   result_of (lambdaHandler_env E_credentials_bigint request_ok module_init)
     = Inl bigint_TypeError"
proof (intro conjI)
  show "result_of (lambdaHandler_try E_credentials_bigint request_ok ()) = Inl bigint_error"
    by code_simp
  show "json_text bigint_error = Inl bigint_TypeError"
    by code_simp
  show "result_of (lambdaHandler E_credentials_bigint request_ok ()) = Inl bigint_TypeError"
    by code_simp
  show "result_of (lambdaHandler_env_try E_credentials_bigint request_ok module_init)
     = Inl bigint_error"
    by code_simp
  show "result_of (lambdaHandler_env E_credentials_bigint request_ok module_init)
     = Inl bigint_TypeError"
    by code_simp
qed

text \<open>
  C5 does not hold on the code. When key creation rejects with an Error that carries an
  object reaching itself, the \<^verbatim>\<open>catch\<close> block logs it and then throws the TypeError of
  \<^verbatim>\<open>JSON.stringify(err)\<close>: an exception leaves the handler, after the calls up to
  \<^verbatim>\<open>createDataKey\<close> were made. Both variants.
\<close>

theorem cyclic_failure_escapes_the_handler:
  "result_of (lambdaHandler_try E_create_cyclic request_ok ()) = Inl cyclic_error \<and>
   json_text cyclic_error = Inl circular_TypeError \<and>
   result_of (lambdaHandler E_create_cyclic request_ok ()) = Inl circular_TypeError \<and>
   result_of (lambdaHandler_env_try E_create_cyclic request_ok module_init) = Inl cyclic_error \<and>
   result_of (lambdaHandler_env E_create_cyclic request_ok module_init) = Inl circular_TypeError \<and>
   last (calls_of (lambdaHandler E_create_cyclic request_ok ())) = ConsoleLog cyclic_error \<and>
   last (calls_of (lambdaHandler_env E_create_cyclic request_ok module_init))
     = ConsoleLog cyclic_error"
proof (intro conjI)
  show "result_of (lambdaHandler_try E_create_cyclic request_ok ()) = Inl cyclic_error"
    by code_simp
  show "json_text cyclic_error = Inl circular_TypeError"
    by code_simp
  show "result_of (lambdaHandler E_create_cyclic request_ok ()) = Inl circular_TypeError"
    by code_simp
  show "result_of (lambdaHandler_env_try E_create_cyclic request_ok module_init)
      = Inl cyclic_error"
    by code_simp
  show "result_of (lambdaHandler_env E_create_cyclic request_ok module_init)
      = Inl circular_TypeError"
    by code_simp
  show "last (calls_of (lambdaHandler E_create_cyclic request_ok ())) = ConsoleLog cyclic_error"
    by (subst lambdaHandler_calls)
      (simp add: lambdaHandler_try_unfold outcome_defs E_create_cyclic_def
        E_ok_def request_ok_def lookup_def Let_def)
  show "last (calls_of (lambdaHandler_env E_create_cyclic request_ok module_init))
     = ConsoleLog cyclic_error"
    by (subst lambdaHandler_env_calls)
      (simp add: lambdaHandler_env_try_unfold outcome_defs
        E_create_cyclic_def E_ok_def request_ok_def lookup_def Let_def)
qed


section \<open>Order of the external calls\<close>




text \<open>
  C9. On the happy path (the \<^verbatim>\<open>try\<close> block completes) the trace holds exactly one
  \<^verbatim>\<open>createDataKey\<close> call: provider \<^verbatim>\<open>"aws"\<close>, master key
  \<^verbatim>\<open>{ key: kmsKeyArn, region: kmsKeyRegion }\<close> and alternate names \<^verbatim>\<open>[dekAltName]\<close> read
  from the event, on an encryption client that was constructed in this invocation with
  key-vault namespace \<^verbatim>\<open>encryption.__keyVault\<close>. Both variants.
\<close>

theorem createDataKey_arguments:
  "(result_of (lambdaHandler_try E event s) = Inr envl \<longrightarrow>
      (\<exists>ce. filter is_CreateDataKey (calls_of (lambdaHandler E event s)) =
               [CreateDataKey ce ''aws''
                  \<lparr>masterKey = \<lparr>key = property event ''kmsKeyArn'',
                                 region = property event ''kmsKeyRegion''\<rparr>,
                   keyAltNames = [property event ''dekAltName'']\<rparr>] \<and>
             keyVaultNamespace (ce_options ce) = ''encryption.__keyVault'' \<and>
             NewClientEncryption (ce_client ce) (ce_options ce)
               \<in> set (calls_of (lambdaHandler E event s)))) \<and>
   (result_of (lambdaHandler_env_try E event m) = Inr envl \<longrightarrow>
      (\<exists>ce. filter is_CreateDataKey (calls_of (lambdaHandler_env E event m)) =
               [CreateDataKey ce ''aws''
                  \<lparr>masterKey = \<lparr>key = property event ''kmsKeyArn'',
                                 region = property event ''kmsKeyRegion''\<rparr>,
                   keyAltNames = [property event ''dekAltName'']\<rparr>] \<and>
             keyVaultNamespace (ce_options ce) = ''encryption.__keyVault'' \<and>
             NewClientEncryption (ce_client ce) (ce_options ce)
               \<in> set (calls_of (lambdaHandler_env E event m))))"
proof (intro conjI)
  show "result_of (lambdaHandler_try E event s) = Inr envl \<longrightarrow>
      (\<exists>ce. filter is_CreateDataKey (calls_of (lambdaHandler E event s)) =
               [CreateDataKey ce ''aws''
                  \<lparr>masterKey = \<lparr>key = property event ''kmsKeyArn'',
                                 region = property event ''kmsKeyRegion''\<rparr>,
                   keyAltNames = [property event ''dekAltName'']\<rparr>] \<and>
             keyVaultNamespace (ce_options ce) = ''encryption.__keyVault'' \<and>
             NewClientEncryption (ce_client ce) (ce_options ce)
               \<in> set (calls_of (lambdaHandler E event s)))"
    unfolding lambdaHandler_calls
    by (cases E event s rule: lambdaHandler_try_cases)
      (auto simp: outcome_defs secrets_call_def key_opts_def
        encryption_opts_def KEY_NAMESPACE_def)
  show "result_of (lambdaHandler_env_try E event m) = Inr envl \<longrightarrow>
      (\<exists>ce. filter is_CreateDataKey (calls_of (lambdaHandler_env E event m)) =
               [CreateDataKey ce ''aws''
                  \<lparr>masterKey = \<lparr>key = property event ''kmsKeyArn'',
                                 region = property event ''kmsKeyRegion''\<rparr>,
                   keyAltNames = [property event ''dekAltName'']\<rparr>] \<and>
             keyVaultNamespace (ce_options ce) = ''encryption.__keyVault'' \<and>
             NewClientEncryption (ce_client ce) (ce_options ce)
               \<in> set (calls_of (lambdaHandler_env E event m)))"
    unfolding lambdaHandler_env_calls
    by (cases E event m rule: lambdaHandler_env_try_cases)
      (auto simp: outcome_defs key_opts_def
        encryption_opts_def KEY_NAMESPACE_def)
qed

theorem createDataKey_arguments_witness:
  "result_of (lambdaHandler_try E_ok request_ok ()) = Inr (success_envelope (v4 (rng E_ok) key_id)) \<and>
   (\<exists>ce. filter is_CreateDataKey (calls_of (lambdaHandler E_ok request_ok ())) =
            [CreateDataKey ce ''aws''
               \<lparr>masterKey = \<lparr>key = JStr ''arn:aws:kms:ap-south-1:111122223333:key/abc'',
                              region = JStr ''ap-south-1''\<rparr>,
                keyAltNames = [JStr ''service-x-dek'']\<rparr>] \<and>
          keyVaultNamespace (ce_options ce) = ''encryption.__keyVault'') \<and>
   result_of (lambdaHandler_env_try E_ok request_ok module_init)
     = Inr (success_envelope (v4 (rng E_ok) key_id)) \<and>
   (\<exists>ce. filter is_CreateDataKey (calls_of (lambdaHandler_env E_ok request_ok module_init)) =
            [CreateDataKey ce ''aws''
               \<lparr>masterKey = \<lparr>key = JStr ''arn:aws:kms:ap-south-1:111122223333:key/abc'',
                              region = JStr ''ap-south-1''\<rparr>,
                keyAltNames = [JStr ''service-x-dek'']\<rparr>] \<and>
          keyVaultNamespace (ce_options ce) = ''encryption.__keyVault'')"
proof -
  have h1: "result_of (lambdaHandler_try E_ok request_ok ())
      = Inr (success_envelope (v4 (rng E_ok) key_id))"
    by (simp add: lambdaHandler_try_unfold outcome_defs E_ok_def request_ok_def lookup_def Let_def)
  have h2: "result_of (lambdaHandler_env_try E_ok request_ok module_init)
      = Inr (success_envelope (v4 (rng E_ok) key_id))"
    by (simp add: lambdaHandler_env_try_unfold outcome_defs E_ok_def request_ok_def lookup_def Let_def)
  have p: "property request_ok ''kmsKeyArn'' = JStr ''arn:aws:kms:ap-south-1:111122223333:key/abc''"
    "property request_ok ''kmsKeyRegion'' = JStr ''ap-south-1''"
    "property request_ok ''dekAltName'' = JStr ''service-x-dek''"
    by (simp_all add: request_ok_def lookup_def)
  show ?thesis
    using createDataKey_arguments
      [of E_ok request_ok "()" "success_envelope (v4 (rng E_ok) key_id)" module_init] h1 h2
    unfolding p by blast
qed

text \<open>
  C10, as stated, fails: not every invocation performs the fetch. An event of \<^verbatim>\<open>null\<close>
  throws at the destructuring of line 81, before the fetch: the trace of that invocation
  holds the log of the TypeError and no call to the secret store.
\<close>

theorem null_event_skips_the_secret_fetch:
  "calls_of (lambdaHandler E_ok JNull ()) = [ConsoleLog (destructure_TypeError JNull)] \<and>
   secrets_call \<notin> set (calls_of (lambdaHandler E_ok JNull ())) \<and>
   result_of (lambdaHandler E_ok JNull ())
     = Inr \<lparr>statusCode = 200, body = JStr empty_error_body\<rparr>"
proof (intro conjI)
  show c: "calls_of (lambdaHandler E_ok JNull ()) = [ConsoleLog (destructure_TypeError JNull)]"
    by (subst lambdaHandler_calls) (simp add: lambdaHandler_try_unfold outcome_defs)
  show "secrets_call \<notin> set (calls_of (lambdaHandler E_ok JNull ()))"
    unfolding c by (simp add: secrets_call_def)
  show "result_of (lambdaHandler E_ok JNull ())
     = Inr \<lparr>statusCode = 200, body = JStr empty_error_body\<rparr>"
    by code_simp
qed

text \<open>
  C10, amended. In the secret-store variant, on every invocation whose event can be
  destructured (it is neither \<^verbatim>\<open>undefined\<close> nor \<^verbatim>\<open>null\<close>), the first external call is the
  Secrets Manager fetch (region \<^verbatim>\<open>ap-south-1\<close>, secret \<^verbatim>\<open>staging-platform-pii-lambda\<close>),
  before request validation. When the fetch fails the \<^verbatim>\<open>try\<close> block ends there with
  that failure, whatever fields the request holds; the validation error of a request with
  a missing field is raised only once the fetch has returned, after that one call.
\<close>

theorem secret_fetch_precedes_validation:
  assumes "event \<noteq> JUndefined" and "event \<noteq> JNull"
  shows "(\<exists>rest. calls_of (lambdaHandler E event s) =
            SecretsSend ''ap-south-1'' ''staging-platform-pii-lambda'' # rest) \<and>
         (\<forall>e. result_of (getSecretManagerData E s) = Inl e \<longrightarrow>
            lambdaHandler_try E event s =
              (Inl e, s, [SecretsSend ''ap-south-1'' ''staging-platform-pii-lambda'']) \<and>
            calls_of (lambdaHandler E event s) =
              [SecretsSend ''ap-south-1'' ''staging-platform-pii-lambda'', ConsoleLog e] \<and>
            (\<forall>t. json_text e = Inr t \<longrightarrow>
               result_of (lambdaHandler E event s) = Inr (error_envelope t))) \<and>
         (\<forall>secrets. result_of (getSecretManagerData E s) = Inr secrets \<longrightarrow>
            falsy (property event ''kmsKeyArn'') \<or> falsy (property event ''kmsKeyRegion'') \<or>
            falsy (property event ''dekAltName'') \<longrightarrow>
            lambdaHandler E event s =
              (Inr \<lparr>statusCode = 200, body = JStr empty_error_body\<rparr>, s,
               [SecretsSend ''ap-south-1'' ''staging-platform-pii-lambda'',
                ConsoleLog (parameter_error (property event ''kmsKeyArn'')
                    (property event ''kmsKeyRegion'') (property event ''dekAltName''))]))"
proof (intro conjI)
  show "\<exists>rest. calls_of (lambdaHandler E event s) =
            SecretsSend ''ap-south-1'' ''staging-platform-pii-lambda'' # rest"
    unfolding lambdaHandler_calls
    using assms
    by (cases E event s rule: lambdaHandler_try_cases)
      (auto simp: outcome_defs secrets_call_def)
  show "\<forall>e. result_of (getSecretManagerData E s) = Inl e \<longrightarrow>
            lambdaHandler_try E event s =
              (Inl e, s, [SecretsSend ''ap-south-1'' ''staging-platform-pii-lambda'']) \<and>
            calls_of (lambdaHandler E event s) =
              [SecretsSend ''ap-south-1'' ''staging-platform-pii-lambda'', ConsoleLog e] \<and>
            (\<forall>t. json_text e = Inr t \<longrightarrow>
               result_of (lambdaHandler E event s) = Inr (error_envelope t))"
    unfolding lambdaHandler_calls lambdaHandler_result
    using assms
    by (cases E event s rule: lambdaHandler_try_cases)
      (auto simp: getSecretManagerData_unfold outcome_defs secrets_call_def)
  show "\<forall>secrets. result_of (getSecretManagerData E s) = Inr secrets \<longrightarrow>
            falsy (property event ''kmsKeyArn'') \<or> falsy (property event ''kmsKeyRegion'') \<or>
            falsy (property event ''dekAltName'') \<longrightarrow>
            lambdaHandler E event s =
              (Inr \<lparr>statusCode = 200, body = JStr empty_error_body\<rparr>, s,
               [SecretsSend ''ap-south-1'' ''staging-platform-pii-lambda'',
                ConsoleLog (parameter_error (property event ''kmsKeyArn'')
                    (property event ''kmsKeyRegion'') (property event ''dekAltName''))])"
    using assms
    by (cases E event s rule: lambdaHandler_try_cases)
      (auto simp: lambdaHandler_unfold getSecretManagerData_unfold outcome_defs secrets_call_def
        parameter_error_def error_envelope_plain_Error)
qed

theorem secret_fetch_precedes_validation_witness:
  "request_empty \<noteq> JUndefined \<and> request_empty \<noteq> JNull \<and>
   result_of (getSecretManagerData E_secrets_fail ()) = Inl secrets_error \<and>
   lambdaHandler_try E_secrets_fail request_empty () =
     (Inl secrets_error, (), [SecretsSend ''ap-south-1'' ''staging-platform-pii-lambda'']) \<and>
   calls_of (lambdaHandler E_secrets_fail request_empty ()) =
     [SecretsSend ''ap-south-1'' ''staging-platform-pii-lambda'', ConsoleLog secrets_error] \<and>
   result_of (lambdaHandler E_secrets_fail request_empty ())
     = Inr \<lparr>statusCode = 200, body = JStr empty_error_body\<rparr> \<and>
   falsy (property request_empty ''kmsKeyArn'') \<and>
   lambdaHandler E_ok request_empty () =
     (Inr \<lparr>statusCode = 200, body = JStr empty_error_body\<rparr>, (),
      [SecretsSend ''ap-south-1'' ''staging-platform-pii-lambda'',
       ConsoleLog (parameter_error JUndefined JUndefined JUndefined)])"
proof -
  have h1: "request_empty \<noteq> JUndefined" and h2: "request_empty \<noteq> JNull"
    by (simp_all add: request_empty_def)
  have g1: "result_of (getSecretManagerData E_secrets_fail ()) = Inl secrets_error"
    by (simp add: getSecretManagerData_unfold outcome_defs E_secrets_fail_def E_ok_def)
  have g2: "result_of (getSecretManagerData E_ok ())
      = Inr (JObj [(''MONGODB_URI'', JStr ''mongodb://db'')])"
    by (simp add: getSecretManagerData_unfold outcome_defs E_ok_def)
  have j: "json_text secrets_error = Inr (Some ''{}'')"
    by (simp add: secrets_error_def)
  have p: "property request_empty ''kmsKeyArn'' = JUndefined"
    "property request_empty ''kmsKeyRegion'' = JUndefined"
    "property request_empty ''dekAltName'' = JUndefined"
    by (simp_all add: request_empty_def lookup_def)
  show ?thesis
    using secret_fetch_precedes_validation [OF h1 h2, of E_secrets_fail "()"]
      secret_fetch_precedes_validation [OF h1 h2, of E_ok "()"] h1 h2 g1 g2 j
    by (simp add: p error_envelope_plain_Error)
qed


section \<open>Validation\<close>

lemma missing_falsy: "missing v \<Longrightarrow> falsy v"
  by (cases v) auto

lemma starts_with_append: "starts_with (p @ y) p"
  by (induction p) auto

lemma contains_if_starts_with: "starts_with s p \<Longrightarrow> contains s p"
  by (cases s; cases p) auto

lemma contains_append: "contains (x @ p @ y) p"
  by (induction x) (auto simp: starts_with_append contains_if_starts_with)

text \<open>The message of the validation Error names the three fields, whatever their values.\<close>

lemma parameter_message_names_fields:
  "contains (parameter_message a r d) ''kmsKeyArn''"
  "contains (parameter_message a r d) ''kmsKeyRegion''"
  "contains (parameter_message a r d) ''dekAltName''"
proof -
  have "parameter_message a r d =
      ''One of the parameter is not provided '' @ ''kmsKeyArn'' @
      ('': '' @ to_string a @ '', kmsKeyRegion: '' @ to_string r @ '', dekAltName: '' @ to_string d)"
    by (simp add: parameter_message_def)
  then show "contains (parameter_message a r d) ''kmsKeyArn''"
    using contains_append by metis
  have "parameter_message a r d =
      (''One of the parameter is not provided kmsKeyArn: '' @ to_string a @ '', '') @
      ''kmsKeyRegion'' @ ('': '' @ to_string r @ '', dekAltName: '' @ to_string d)"
    by (simp add: parameter_message_def)
  then show "contains (parameter_message a r d) ''kmsKeyRegion''"
    using contains_append by metis
  have "parameter_message a r d =
      (''One of the parameter is not provided kmsKeyArn: '' @ to_string a @
       '', kmsKeyRegion: '' @ to_string r @ '', '') @ ''dekAltName'' @ ('': '' @ to_string d)"
    by (simp add: parameter_message_def)
  then show "contains (parameter_message a r d) ''dekAltName''"
    using contains_append by metis
qed

text \<open>
  A request object with a field absent or empty never reaches the database: the
  \<^verbatim>\<open>try\<close> block throws with no connect call in its trace, in the environment-variable
  variant the validation Error, in the secret-store variant that Error or the failure of
  the secret fetch before it.
\<close>

lemma missing_parameter_no_connection:
  assumes "event = JObj ps"
    and "missing (lookup ps ''kmsKeyArn'') \<or> missing (lookup ps ''kmsKeyRegion'') \<or>
         missing (lookup ps ''dekAltName'')"
  shows "\<exists>err t. lambdaHandler_try E event s = (Inl err, s, t) \<and>
            filter is_MongoConnect t = [] \<and>
            (result_of (getSecretManagerData E s) = Inl err \<or>
             err = parameter_error (lookup ps ''kmsKeyArn'') (lookup ps ''kmsKeyRegion'')
                     (lookup ps ''dekAltName''))"
    and "lambdaHandler_env E event m =
           (Inr \<lparr>statusCode = 200, body = JStr empty_error_body\<rparr>, m,
            [ConsoleLog (parameter_error (lookup ps ''kmsKeyArn'') (lookup ps ''kmsKeyRegion'')
                 (lookup ps ''dekAltName''))])"
proof -
  have f: "falsy (property event ''kmsKeyArn'') \<or> falsy (property event ''kmsKeyRegion'') \<or>
      falsy (property event ''dekAltName'')"
    using assms missing_falsy by auto
  show "\<exists>err t. lambdaHandler_try E event s = (Inl err, s, t) \<and>
            filter is_MongoConnect t = [] \<and>
            (result_of (getSecretManagerData E s) = Inl err \<or>
             err = parameter_error (lookup ps ''kmsKeyArn'') (lookup ps ''kmsKeyRegion'')
                     (lookup ps ''dekAltName''))"
    using f assms(1)
    by (cases E event s rule: lambdaHandler_try_cases)
      (auto simp: getSecretManagerData_unfold outcome_defs secrets_call_def)
  show "lambdaHandler_env E event m =
           (Inr \<lparr>statusCode = 200, body = JStr empty_error_body\<rparr>, m,
            [ConsoleLog (parameter_error (lookup ps ''kmsKeyArn'') (lookup ps ''kmsKeyRegion'')
                 (lookup ps ''dekAltName''))])"
    using f assms(1)
    by (cases E event m rule: lambdaHandler_env_try_cases)
      (auto simp: lambdaHandler_env_unfold parameter_error_def error_envelope_plain_Error)
qed

text \<open>
  C2 does not hold on the code. For the spec's own example request (an empty
  \<^verbatim>\<open>kmsKeyArn\<close>) the \<^verbatim>\<open>try\<close> block throws the Error it built to name the fields, but the
  \<^verbatim>\<open>catch\<close> block puts \<^verbatim>\<open>JSON.stringify(err)\<close> into the envelope, and that drops the message:
  both variants return the body \<^verbatim>\<open>{"message":"error","error":"{}"}\<close>, in which no field is
  named.
\<close>

theorem validation_envelope_names_no_field:
  "result_of (lambdaHandler_try E_ok request_no_arn ()) =
     Inl (JError ''Error''
       ''One of the parameter is not provided kmsKeyArn: , kmsKeyRegion: ap-south-1, dekAltName: x''
       []) \<and>
   result_of (lambdaHandler E_ok request_no_arn ())
     = Inr \<lparr>statusCode = 200, body = JStr empty_error_body\<rparr> \<and>
   result_of (lambdaHandler_env E_ok request_no_arn module_init)
     = Inr \<lparr>statusCode = 200, body = JStr empty_error_body\<rparr> \<and>
   \<not> contains empty_error_body ''kmsKeyArn'' \<and>
   filter is_MongoConnect (calls_of (lambdaHandler E_ok request_no_arn ())) = [] \<and>
   filter is_MongoConnect (calls_of (lambdaHandler_env E_ok request_no_arn module_init)) = []"
proof (intro conjI)
  show "result_of (lambdaHandler_try E_ok request_no_arn ()) =
     Inl (JError ''Error''
       ''One of the parameter is not provided kmsKeyArn: , kmsKeyRegion: ap-south-1, dekAltName: x''
       [])"
    by code_simp
  show "result_of (lambdaHandler E_ok request_no_arn ())
     = Inr \<lparr>statusCode = 200, body = JStr empty_error_body\<rparr>"
    by code_simp
  show "result_of (lambdaHandler_env E_ok request_no_arn module_init)
     = Inr \<lparr>statusCode = 200, body = JStr empty_error_body\<rparr>"
    by code_simp
  show "\<not> contains empty_error_body ''kmsKeyArn''"
    by code_simp
  show "filter is_MongoConnect (calls_of (lambdaHandler E_ok request_no_arn ())) = []"
    by (subst lambdaHandler_calls)
      (simp add: lambdaHandler_try_unfold outcome_defs E_ok_def request_no_arn_def lookup_def
        secrets_call_def)
  show "filter is_MongoConnect (calls_of (lambdaHandler_env E_ok request_no_arn module_init)) = []"
    by (subst lambdaHandler_env_calls)
      (simp add: lambdaHandler_env_try_unfold outcome_defs E_ok_def request_no_arn_def lookup_def)
qed

section \<open>What the failure envelope carries\<close>

text \<open>
  C6, as stated, fails for an Error that carries enumerable own properties: when the
  credential chain fails with a \<^verbatim>\<open>CredentialsProviderError\<close>, the error field is
  \<^verbatim>\<open>{"tryNextLink":false,"name":"CredentialsProviderError"}\<close>, not \<^verbatim>\<open>{}\<close>, and the body
  names the failure.
\<close>

theorem error_with_enumerable_properties_is_serialised:
  "result_of (lambdaHandler_try E_credentials_fail request_ok ()) = Inl credentials_error \<and>
   JSON_stringify credentials_error = Inr (JStr credentials_text) \<and>
   credentials_text \<noteq> ''{}'' \<and>
   result_of (lambdaHandler E_credentials_fail request_ok ()) =
     Inr \<lparr>statusCode = 200,
          body = JStr (''{'' @ quoted ''message'' @ '':'' @ quoted ''error'' @ '','' @
                       quoted ''error'' @ '':'' @ json_quote credentials_text @ ''}'')\<rparr> \<and>
   contains (''{'' @ quoted ''message'' @ '':'' @ quoted ''error'' @ '','' @
             quoted ''error'' @ '':'' @ json_quote credentials_text @ ''}'')
     ''CredentialsProviderError''"
proof (intro conjI)
  show "result_of (lambdaHandler_try E_credentials_fail request_ok ()) = Inl credentials_error"
    by code_simp
  show "JSON_stringify credentials_error = Inr (JStr credentials_text)"
    by code_simp
  show "credentials_text \<noteq> ''{}''"
    by code_simp
  show "result_of (lambdaHandler E_credentials_fail request_ok ()) =
     Inr \<lparr>statusCode = 200,
          body = JStr (''{'' @ quoted ''message'' @ '':'' @ quoted ''error'' @ '','' @
                       quoted ''error'' @ '':'' @ json_quote credentials_text @ ''}'')\<rparr>"
    by code_simp
  show "contains (''{'' @ quoted ''message'' @ '':'' @ quoted ''error'' @ '','' @
             quoted ''error'' @ '':'' @ json_quote credentials_text @ ''}'')
     ''CredentialsProviderError''"
    by code_simp
qed

lemma JSON_stringify_plain_Error: "JSON_stringify (JError n msg []) = Inr (JStr ''{}'')"
  by (simp add: JSON_stringify_def)

lemma JSON_stringify_shape:
  "JSON_stringify err = Inr v \<Longrightarrow>
     (v = JUndefined \<and> json_text err = Inr None) \<or> (\<exists>t. v = JStr t \<and> json_text err = Inr (Some t))"
  by (auto simp: JSON_stringify_def split: sum.splits option.splits)

lemma caught_value_envelope:
  assumes "JSON_stringify err = Inr v" and "json_text err = Inr t"
  shows "JSON_stringify (JObj [(''message'', JStr ''error''), (''error'', v)])
      = Inr (body (error_envelope t))"
  using JSON_stringify_shape [OF assms(1)] assms(2)
  by (auto simp: JSON_stringify_message_error)

text \<open>
  C6, amended. In the failure envelope the error field is \<^verbatim>\<open>JSON.stringify\<close> applied to
  the caught value. For an Error that carries no enumerable own property (its message and
  stack are not enumerable), as the validation Error the handler creates, this is the
  string \<^verbatim>\<open>{}\<close> and the body is \<^verbatim>\<open>{"message":"error","error":"{}"}\<close>, with no detail
  of the failure; enumerable own properties of a caught Error are serialised.
\<close>

theorem error_field_is_stringified_caught_value:
  "(result_of (lambdaHandler_try E event s) = Inl err \<longrightarrow>
      (case JSON_stringify err of
         Inl e \<Rightarrow> result_of (lambdaHandler E event s) = Inl e
       | Inr v \<Rightarrow>
           (\<exists>b. JSON_stringify (JObj [(''message'', JStr ''error''), (''error'', v)]) = Inr b \<and>
                result_of (lambdaHandler E event s) = Inr \<lparr>statusCode = 200, body = b\<rparr>))) \<and>
   (result_of (lambdaHandler_env_try E event m) = Inl err \<longrightarrow>
      (case JSON_stringify err of
         Inl e \<Rightarrow> result_of (lambdaHandler_env E event m) = Inl e
       | Inr v \<Rightarrow>
           (\<exists>b. JSON_stringify (JObj [(''message'', JStr ''error''), (''error'', v)]) = Inr b \<and>
                result_of (lambdaHandler_env E event m) = Inr \<lparr>statusCode = 200, body = b\<rparr>))) \<and>
   JSON_stringify (JError n msg []) = Inr (JStr ''{}'') \<and>
   JSON_stringify (parameter_error a r d) = Inr (JStr ''{}'') \<and>
   JSON_stringify (JObj [(''message'', JStr ''error''), (''error'', JStr ''{}'')])
     = Inr (JStr empty_error_body) \<and>
   json_text (JError n msg ps) = json_text (JObj ps)"
proof -
  have shape: "case JSON_stringify err of
         Inl e \<Rightarrow> (case json_text err of Inl e' \<Rightarrow> Inl e' | Inr t \<Rightarrow> Inr (error_envelope t)) = Inl e
       | Inr v \<Rightarrow>
           (\<exists>b. JSON_stringify (JObj [(''message'', JStr ''error''), (''error'', v)]) = Inr b \<and>
                (case json_text err of Inl e' \<Rightarrow> Inl e' | Inr t \<Rightarrow> Inr (error_envelope t))
                  = Inr \<lparr>statusCode = 200, body = b\<rparr>)"
  proof (cases "json_text err")
    case (Inl e)
    then show ?thesis by (simp add: JSON_stringify_def)
  next
    case (Inr t)
    then have "JSON_stringify err = Inr (case t of None \<Rightarrow> JUndefined | Some x \<Rightarrow> JStr x)"
      by (simp add: JSON_stringify_def split: option.split)
    then obtain v where v: "JSON_stringify err = Inr v" ..
    show ?thesis
      using caught_value_envelope [OF v Inr] Inr v
      by (simp add: envelope_with_body)
  qed
  have body: "JSON_stringify (JObj [(''message'', JStr ''error''), (''error'', JStr ''{}'')])
     = Inr (JStr empty_error_body)"
    using error_envelope_plain_Error by (simp add: JSON_stringify_message_error)
  have r1: "result_of (lambdaHandler E event s) =
      (case json_text err of Inl e' \<Rightarrow> Inl e' | Inr t \<Rightarrow> Inr (error_envelope t))"
    if "result_of (lambdaHandler_try E event s) = Inl err"
    using that by (simp add: lambdaHandler_result)
  have r2: "result_of (lambdaHandler_env E event m) =
      (case json_text err of Inl e' \<Rightarrow> Inl e' | Inr t \<Rightarrow> Inr (error_envelope t))"
    if "result_of (lambdaHandler_env_try E event m) = Inl err"
    using that by (simp add: lambdaHandler_env_result)
  have c1: "result_of (lambdaHandler_try E event s) = Inl err \<longrightarrow>
      (case JSON_stringify err of
         Inl e \<Rightarrow> result_of (lambdaHandler E event s) = Inl e
       | Inr v \<Rightarrow>
           (\<exists>b. JSON_stringify (JObj [(''message'', JStr ''error''), (''error'', v)]) = Inr b \<and>
                result_of (lambdaHandler E event s) = Inr \<lparr>statusCode = 200, body = b\<rparr>))"
    using shape r1 by (cases "JSON_stringify err") auto
  have c2: "result_of (lambdaHandler_env_try E event m) = Inl err \<longrightarrow>
      (case JSON_stringify err of
         Inl e \<Rightarrow> result_of (lambdaHandler_env E event m) = Inl e
       | Inr v \<Rightarrow>
           (\<exists>b. JSON_stringify (JObj [(''message'', JStr ''error''), (''error'', v)]) = Inr b \<and>
                result_of (lambdaHandler_env E event m) = Inr \<lparr>statusCode = 200, body = b\<rparr>))"
    using shape r2 by (cases "JSON_stringify err") auto
  show ?thesis
    using c1 c2 body
    by (simp add: JSON_stringify_plain_Error parameter_error_def)
qed

theorem error_field_is_stringified_caught_value_witness:
  "result_of (lambdaHandler_try E_ok request_no_arn ())
     = Inl (parameter_error (JStr []) (JStr ''ap-south-1'') (JStr ''x'')) \<and>
   result_of (lambdaHandler_env_try E_ok request_no_arn module_init)
     = Inl (parameter_error (JStr []) (JStr ''ap-south-1'') (JStr ''x'')) \<and>
   result_of (lambdaHandler E_ok request_no_arn ())
     = Inr \<lparr>statusCode = 200, body = JStr empty_error_body\<rparr> \<and>
   result_of (lambdaHandler_env E_ok request_no_arn module_init)
     = Inr \<lparr>statusCode = 200, body = JStr empty_error_body\<rparr>"
proof -
  let ?err = "parameter_error (JStr []) (JStr ''ap-south-1'') (JStr ''x'')"
  have h1: "result_of (lambdaHandler_try E_ok request_no_arn ()) = Inl ?err"
    by (simp add: lambdaHandler_try_unfold outcome_defs E_ok_def request_no_arn_def lookup_def)
  have h2: "result_of (lambdaHandler_env_try E_ok request_no_arn module_init) = Inl ?err"
    by (simp add: lambdaHandler_env_try_unfold outcome_defs E_ok_def request_no_arn_def lookup_def)
  have j: "JSON_stringify ?err = Inr (JStr ''{}'')"
    by (simp add: parameter_error_def JSON_stringify_plain_Error)
  note T = error_field_is_stringified_caught_value
    [of E_ok request_no_arn "()" ?err module_init "''Error''"
      "parameter_message (JStr []) (JStr ''ap-south-1'') (JStr ''x'')"
      "JStr []" "JStr ''ap-south-1''" "JStr ''x''" "[]"]
  show ?thesis
    using T h1 h2 by (auto simp: j)
qed


section \<open>The UUID of the response\<close>

lemma v4_ignores_options: "v4 rnds options = v4 rnds []"
  by (simp add: v4_def)

text \<open>
  C1 does not hold on the code: \<^verbatim>\<open>stringify\<close> is the package's \<^verbatim>\<open>v4\<close>, which renders
  16 random bytes and reads nothing from the key identifier. With the key identifier
  \<open>key_id\<close> and a generator that gives ff sixteen times, both variants answer
  \<^verbatim>\<open>{"dataKeyUUID":"ffffffff-ffff-4fff-bfff-ffffffffffff"}\<close>; decoding that string gives
  other bytes than the key identifier, whose textual form is
  \<^verbatim>\<open>00010203-0405-4607-8809-0a0b0c0d0e0f\<close>.
\<close>

theorem dataKeyUUID_is_not_the_key_id:
  "result_of (lambdaHandler E_ok request_ok ())
     = Inr \<lparr>statusCode = 200, body = JStr success_body\<rparr> \<and>
   result_of (lambdaHandler_env E_ok request_ok module_init)
     = Inr \<lparr>statusCode = 200, body = JStr success_body\<rparr> \<and>
   filter is_CreateDataKey (calls_of (lambdaHandler E_ok request_ok ())) =
     [CreateDataKey
        \<lparr>ce_client = Some (client_for (JStr ''mongodb://db'')),
         ce_options = encryption_opts \<lparr>accessKeyId = JStr ''AK'', secretAccessKey = JStr ''SK'',
                                         sessionToken = JUndefined\<rparr>\<rparr>
        ''aws''
        (key_opts (JStr ''arn:aws:kms:ap-south-1:111122223333:key/abc'') (JStr ''ap-south-1'')
           (JStr ''service-x-dek''))] \<and>
   createDataKey E_ok
        \<lparr>ce_client = Some (client_for (JStr ''mongodb://db'')),
         ce_options = encryption_opts \<lparr>accessKeyId = JStr ''AK'', secretAccessKey = JStr ''SK'',
                                         sessionToken = JUndefined\<rparr>\<rparr>
        ''aws''
        (key_opts (JStr ''arn:aws:kms:ap-south-1:111122223333:key/abc'') (JStr ''ap-south-1'')
           (JStr ''service-x-dek''))
     = Inr \<lparr>buffer = key_id\<rparr> \<and>
   uuid_parse ''ffffffff-ffff-4fff-bfff-ffffffffffff'' =
     Some [0xff, 0xff, 0xff, 0xff, 0xff, 0xff, 0x4f, 0xff,
           0xbf, 0xff, 0xff, 0xff, 0xff, 0xff, 0xff, 0xff] \<and>
   uuid_parse ''ffffffff-ffff-4fff-bfff-ffffffffffff'' \<noteq> Some key_id \<and>
   unsafeStringify key_id = ''00010203-0405-4607-8809-0a0b0c0d0e0f'' \<and>
   uuid_parse ''00010203-0405-4607-8809-0a0b0c0d0e0f'' = Some key_id"
proof (intro conjI)
  show "result_of (lambdaHandler E_ok request_ok ())
     = Inr \<lparr>statusCode = 200, body = JStr success_body\<rparr>"
    by code_simp
  show "result_of (lambdaHandler_env E_ok request_ok module_init)
     = Inr \<lparr>statusCode = 200, body = JStr success_body\<rparr>"
    by code_simp
  show "filter is_CreateDataKey (calls_of (lambdaHandler E_ok request_ok ())) =
     [CreateDataKey
        \<lparr>ce_client = Some (client_for (JStr ''mongodb://db'')),
         ce_options = encryption_opts \<lparr>accessKeyId = JStr ''AK'', secretAccessKey = JStr ''SK'',
                                         sessionToken = JUndefined\<rparr>\<rparr>
        ''aws''
        (key_opts (JStr ''arn:aws:kms:ap-south-1:111122223333:key/abc'') (JStr ''ap-south-1'')
           (JStr ''service-x-dek''))]"
    by (subst lambdaHandler_calls)
      (simp add: lambdaHandler_try_unfold outcome_defs E_ok_def
        request_ok_def lookup_def client_for_def secrets_call_def Let_def)
  show "createDataKey E_ok
        \<lparr>ce_client = Some (client_for (JStr ''mongodb://db'')),
         ce_options = encryption_opts \<lparr>accessKeyId = JStr ''AK'', secretAccessKey = JStr ''SK'',
                                         sessionToken = JUndefined\<rparr>\<rparr>
        ''aws''
        (key_opts (JStr ''arn:aws:kms:ap-south-1:111122223333:key/abc'') (JStr ''ap-south-1'')
           (JStr ''service-x-dek''))
     = Inr \<lparr>buffer = key_id\<rparr>"
    by (simp add: E_ok_def)
  show "uuid_parse ''ffffffff-ffff-4fff-bfff-ffffffffffff'' =
     Some [0xff, 0xff, 0xff, 0xff, 0xff, 0xff, 0x4f, 0xff,
           0xbf, 0xff, 0xff, 0xff, 0xff, 0xff, 0xff, 0xff]"
    by code_simp
  show "uuid_parse ''ffffffff-ffff-4fff-bfff-ffffffffffff'' \<noteq> Some key_id"
    by code_simp
  show "unsafeStringify key_id = ''00010203-0405-4607-8809-0a0b0c0d0e0f''"
    by code_simp
  show "uuid_parse ''00010203-0405-4607-8809-0a0b0c0d0e0f'' = Some key_id"
    by code_simp
qed

section \<open>The module-level bindings of the environment-variable variant\<close>

lemma lambdaHandler_env_dbClient:
  "dbClient (state_of (lambdaHandler_env E event m)) = dbClient m"
  unfolding lambdaHandler_env_state
  by (cases E event m rule: lambdaHandler_env_try_cases)
    (simp_all add: outcome_defs)

lemma invocations_dbClient: "dbClient (invocations invs m) = dbClient m"
proof (induction invs arbitrary: m)
  case Nil
  show ?case by simp
next
  case (Cons inv invs)
  obtain E event where inv: "inv = (E, event)" by (cases inv)
  show ?case
    using Cons.IH [of "fst (snd (lambdaHandler_env E event m))"]
      lambdaHandler_env_dbClient [of E event m]
    by (simp add: inv state_of_def)
qed

lemma lambdaHandler_env_constructed_with:
  "constructed_with (calls_of (lambdaHandler_env E event m)) = [] \<or>
   constructed_with (calls_of (lambdaHandler_env E event m)) = [dbClient m]"
  unfolding lambdaHandler_env_calls
  by (cases E event m rule: lambdaHandler_env_try_cases)
    (simp_all add: outcome_defs)

text \<open>
  C4. In the environment-variable variant no invocation changes the module-level
  \<^verbatim>\<open>dbClient\<close>; after any sequence of invocations from the freshly loaded module it is
  still \<^verbatim>\<open>null\<close>, so an invocation constructs the encryption client, when it reaches the
  constructor, with a \<^verbatim>\<open>null\<close> database client, never with the client that
  \<^verbatim>\<open>initializeMongodb\<close> connected.
\<close>

theorem dbClient_stays_null:
  "dbClient (state_of (lambdaHandler_env E event m)) = dbClient m \<and>
   dbClient (invocations invs module_init) = None \<and>
   (constructed_with (calls_of (lambdaHandler_env E event (invocations invs module_init))) = [] \<or>
    constructed_with (calls_of (lambdaHandler_env E event (invocations invs module_init)))
      = [None])"
proof -
  have n: "dbClient (invocations invs module_init) = None"
    by (simp add: invocations_dbClient module_init_def)
  show ?thesis
    using lambdaHandler_env_constructed_with [of E event "invocations invs module_init"]
    by (simp add: lambdaHandler_env_dbClient n)
qed


section \<open>The two variants compared\<close>

text \<open>
  C7 does not hold on the code. With the same request and the same collaborators, the
  secret holding the URI of the environment variable, the secret-store variant hands the
  connected client to the encryption client while the environment-variable variant hands
  it the module-level \<^verbatim>\<open>dbClient\<close>, which nothing assigns: the constructor calls differ,
  and an encryption library that needs its database client creates the key in the first
  variant and fails in the second, so the envelopes differ.
\<close>

theorem variants_differ:
  "result_of (lambdaHandler E_needs_client request_ok ())
     = Inr \<lparr>statusCode = 200, body = JStr success_body\<rparr> \<and>
   result_of (lambdaHandler_env E_needs_client request_ok module_init)
     = Inr \<lparr>statusCode = 200, body = JStr empty_error_body\<rparr> \<and>
   success_body \<noteq> empty_error_body \<and>
   constructed_with (calls_of (lambdaHandler E_ok request_ok ()))
     = [Some (client_for (JStr ''mongodb://db''))] \<and>
   constructed_with (calls_of (lambdaHandler_env E_ok request_ok module_init)) = [None]"
proof (intro conjI)
  show "result_of (lambdaHandler E_needs_client request_ok ())
     = Inr \<lparr>statusCode = 200, body = JStr success_body\<rparr>"
    by code_simp
  show "result_of (lambdaHandler_env E_needs_client request_ok module_init)
     = Inr \<lparr>statusCode = 200, body = JStr empty_error_body\<rparr>"
    by code_simp
  show "success_body \<noteq> empty_error_body"
    by code_simp
  show "constructed_with (calls_of (lambdaHandler E_ok request_ok ()))
     = [Some (client_for (JStr ''mongodb://db''))]"
    by (subst lambdaHandler_calls)
      (simp add: lambdaHandler_try_unfold outcome_defs E_ok_def
        request_ok_def lookup_def client_for_def secrets_call_def Let_def)
  show "constructed_with (calls_of (lambdaHandler_env E_ok request_ok module_init)) = [None]"
    by (subst lambdaHandler_env_calls)
      (simp add: lambdaHandler_env_try_unfold outcome_defs E_ok_def
        request_ok_def lookup_def module_init_def Let_def)
qed

end
